theory Spec2Isabelle
  imports Complex_Main "HOL-Library.Word"
begin

section \<open>The anomaly command-line tool: a model of its sources\<close>

text \<open>
  The tool signs a user in, zips the working directory, uploads the archive to cloud
  storage and registers it with a backend (\<^verbatim>\<open>src/commands/createApp.ts\<close>,
  \<^verbatim>\<open>src/auth/index.ts\<close>, \<^verbatim>\<open>src/index.ts\<close>). Each function of the
  sources is a function here. What the sources get from outside (the user at the prompt,
  the directory listing, the archiver, the storage service, the backend, the file system's
  answer to \<^verbatim>\<open>unlink\<close>) is a field of an environment record; what they
  change (files, upload calls, HTTP traffic, console lines) is a field of a world record
  that every operation takes and returns. A rejected promise or a thrown exception is
  \<open>Inl\<close> of a JavaScript error value.

  JavaScript strings are lists of characters, one character per code unit. Console lines
  carry the message text only: colours, emoji, line breaks and the captions of the
  spinners are left out (the spinner the upload's progress is written to is kept).
\<close>

subsection \<open>JavaScript values\<close>

datatype js_error = JsError (error_name: string) (error_message: string) (error_code: "string option")

text \<open>\<^verbatim>\<open>new Error(message)\<close>: the name is \<^verbatim>\<open>Error\<close>, and there is no \<^verbatim>\<open>code\<close> property.\<close>

definition new_Error :: "string \<Rightarrow> js_error" where
  "new_Error msg = JsError ''Error'' msg None"

definition is_prefix :: "string \<Rightarrow> string \<Rightarrow> bool" where
  "is_prefix p s = (take (length p) s = p)"

text \<open>\<^verbatim>\<open>s.includes(p)\<close>: \<open>p\<close> occurs in \<open>s\<close> as a contiguous run.\<close>

fun str_includes :: "string \<Rightarrow> string \<Rightarrow> bool" where
  "str_includes [] p = (p = [])"
| "str_includes (c # cs) p = (is_prefix p (c # cs) \<or> str_includes cs p)"

text \<open>
  The white space \<^verbatim>\<open>String.prototype.trim\<close> strips, among the code units below 256:
  tab, line feed, vertical tab, form feed, carriage return, space and no-break space.
\<close>

definition is_whitespace :: "char \<Rightarrow> bool" where
  "is_whitespace c = (of_char c \<in> {9, 10, 11, 12, 13, 32, 160 :: nat})"

definition trim :: "string \<Rightarrow> string" where
  "trim s = rev (dropWhile is_whitespace (rev (dropWhile is_whitespace s)))"

definition digit_char :: "nat \<Rightarrow> char" where
  "digit_char d = (''0123456789'' ! d)"

text \<open>A non-negative integer in a template string: its decimal digits.\<close>

fun String_of_nat :: "nat \<Rightarrow> string" where
  "String_of_nat n =
     (if n < 10 then [digit_char n] else String_of_nat (n div 10) @ [digit_char (n mod 10)])"

declare String_of_nat.simps [simp del]

fun split_on :: "char \<Rightarrow> string \<Rightarrow> string list" where
  "split_on d [] = [[]]"
| "split_on d (c # cs) =
     (if c = d then [] # split_on d cs
      else (case split_on d cs of [] \<Rightarrow> [[c]] | p # ps \<Rightarrow> (c # p) # ps))"

text \<open>
  \<^verbatim>\<open>path.basename\<close> and \<^verbatim>\<open>path.join\<close> on POSIX paths. \<^verbatim>\<open>process.cwd()\<close>
  is absolute and normalised, so joining a file name to it only adds the separator.
\<close>

definition basename :: "string \<Rightarrow> string" where
  "basename p = (case filter (\<lambda>s. s \<noteq> []) (split_on CHR ''/'' p) of [] \<Rightarrow> [] | x # xs \<Rightarrow> last (x # xs))"

definition path_join :: "string \<Rightarrow> string \<Rightarrow> string" where
  "path_join dir file = (if dir = ''/'' then dir @ file else dir @ ''/'' @ file)"

subsection \<open>Authentication (\<^verbatim>\<open>src/auth/index.ts\<close>)\<close>

text \<open>
  The provider's \<^verbatim>\<open>User\<close>: the fields the tool reads, and what \<^verbatim>\<open>getIdToken()\<close>
  resolves or rejects with.
\<close>

record User =
  user_uid :: string
  user_email :: "string option"
  user_displayName :: "string option"
  getIdToken :: "js_error + string"

record AuthUser =
  uid :: string
  email :: "string option"
  displayName :: "string option"
  user :: User

text \<open>
  \<^verbatim>\<open>getAuthErrorMessage(errorCode)\<close>. The argument is \<^verbatim>\<open>error.code\<close> of whatever
  the provider threw, so it may be \<^verbatim>\<open>undefined\<close> (\<open>None\<close>), which no
  \<^verbatim>\<open>case\<close> of the \<^verbatim>\<open>switch\<close> equals.
\<close>

definition getAuthErrorMessage :: "string option \<Rightarrow> string" where
  "getAuthErrorMessage errorCode =
     (if errorCode = Some ''auth/user-not-found'' then ''No account found with this email address.''
      else if errorCode = Some ''auth/wrong-password'' then ''Incorrect password.''
      else if errorCode = Some ''auth/email-already-in-use'' then ''An account with this email already exists.''
      else if errorCode = Some ''auth/weak-password'' then ''Password should be at least 6 characters.''
      else if errorCode = Some ''auth/invalid-email'' then ''Invalid email address.''
      else if errorCode = Some ''auth/too-many-requests'' then ''Too many failed attempts. Please try again later.''
      else ''Authentication failed. Please try again.'')"

definition toAuthUser :: "User \<Rightarrow> AuthUser" where
  "toAuthUser u = \<lparr>uid = user_uid u, email = user_email u, displayName = user_displayName u, user = u\<rparr>"

text \<open>
  \<^verbatim>\<open>signIn\<close> and \<^verbatim>\<open>signUp\<close>; the first argument is the provider call
  (\<^verbatim>\<open>signInWithEmailAndPassword\<close>, \<^verbatim>\<open>createUserWithEmailAndPassword\<close>).
\<close>

definition signIn :: "(string \<Rightarrow> string \<Rightarrow> js_error + User) \<Rightarrow> string \<Rightarrow> string \<Rightarrow> js_error + AuthUser" where
  "signIn signInWithEmailAndPassword email_address password =
     (case signInWithEmailAndPassword email_address password of
        Inr u \<Rightarrow> Inr (toAuthUser u)
      | Inl error \<Rightarrow> Inl (new_Error (getAuthErrorMessage (error_code error))))"

definition signUp :: "(string \<Rightarrow> string \<Rightarrow> js_error + User) \<Rightarrow> string \<Rightarrow> string \<Rightarrow> js_error + AuthUser" where
  "signUp createUserWithEmailAndPassword email_address password =
     (case createUserWithEmailAndPassword email_address password of
        Inr u \<Rightarrow> Inr (toAuthUser u)
      | Inl error \<Rightarrow> Inl (new_Error (getAuthErrorMessage (error_code error))))"

text \<open>The provider codes the \<^verbatim>\<open>switch\<close> knows, and every message it can return.\<close>

definition known_codes :: "string list" where
  "known_codes = [''auth/user-not-found'', ''auth/wrong-password'', ''auth/email-already-in-use'',
     ''auth/weak-password'', ''auth/invalid-email'', ''auth/too-many-requests'']"

definition auth_messages :: "string list" where
  "auth_messages = [''No account found with this email address.'', ''Incorrect password.'',
     ''An account with this email already exists.'', ''Password should be at least 6 characters.'',
     ''Invalid email address.'', ''Too many failed attempts. Please try again later.'',
     ''Authentication failed. Please try again.'']"

subsection \<open>The app-name prompt (\<^verbatim>\<open>createApp\<close>, step 1)\<close>

text \<open>A \<^verbatim>\<open>validate\<close> callback returns \<^verbatim>\<open>true\<close> or the message to show.\<close>

datatype validation = Valid | Invalid string

definition validate_appName :: "string \<Rightarrow> validation" where
  "validate_appName v =
     (if length v < 3 then Invalid ''App name must be at least 3 characters long''
      else if length v > 50 then Invalid ''App name must be less than 50 characters''
      else Valid)"

text \<open>
  What the user does at a text prompt until it settles: submits a line, or aborts (Ctrl-C,
  Escape). The prompt library runs \<^verbatim>\<open>validate\<close> on every submitted line, empty
  ones too; a line that fails is not accepted: its message is shown and the prompt stays
  open. On abort the answer object has no value for the question (\<open>None\<close> is
  \<^verbatim>\<open>undefined\<close>). The result is the messages shown and the answer. A session is
  written down up to the event that settles the prompt; a list that stops before that
  event is read as a session that ends with an abort. A prompt that never settles (the
  user walks away, the input closes) gives the workflow no outcome, and no key list
  stands for it.
\<close>

datatype key_event = Submit string | Abort

fun prompts_text :: "(string \<Rightarrow> validation) \<Rightarrow> key_event list \<Rightarrow> string list \<times> string option" where
  "prompts_text validate [] = ([], None)"
| "prompts_text validate (Abort # rest) = ([], None)"
| "prompts_text validate (Submit v # rest) =
     (case validate v of
        Valid \<Rightarrow> ([], Some v)
      | Invalid msg \<Rightarrow> (msg # fst (prompts_text validate rest), snd (prompts_text validate rest)))"

subsection \<open>The archiver (\<^verbatim>\<open>createZipFile\<close>)\<close>

text \<open>
  What the walk of the source directory reads: files and directories by name. An entry
  of the walk is its path relative to the source directory, as the list of its
  components, and whether it is a directory. A directory is listed before what it holds.
\<close>

datatype node = File string | Dir string "node list"

type_synonym entry = "string list \<times> bool"

fun walk :: "string list \<Rightarrow> node \<Rightarrow> entry list" where
  "walk dir (File n) = [(dir @ [n], False)]"
| "walk dir (Dir n children) = (dir @ [n], True) # concat (map (walk (dir @ [n])) children)"

definition walk_all :: "node list \<Rightarrow> entry list" where
  "walk_all listing = concat (map (walk []) listing)"

text \<open>
  Glob matching as the archiver's walker does it (the minimatch matcher, without its
  \<^verbatim>\<open>matchBase\<close> option): a pattern is split at \<^verbatim>\<open>/\<close>; the part
  \<^verbatim>\<open>**\<close> stands for any number of path components; in any other part
  \<^verbatim>\<open>*\<close> stands for any run of characters and \<^verbatim>\<open>?\<close> for one character,
  and a part without them matches by equality. Unless the \<^verbatim>\<open>dot\<close> option is set,
  a wildcard does not match a leading dot, and it never matches the names \<^verbatim>\<open>.\<close>
  and \<^verbatim>\<open>..\<close>. The walker tests a directory with a trailing
  \<^verbatim>\<open>/\<close>, which gives it one more, empty, component. Character classes, braces,
  extended globs, negation and comments are not modelled: \<open>glob_free\<close> says that a name
  uses none of their characters.
\<close>

datatype part = GLOBSTAR | Part string

definition parse_pattern :: "string \<Rightarrow> part list" where
  "parse_pattern p = map (\<lambda>s. if s = ''**'' then GLOBSTAR else Part s) (split_on CHR ''/'' p)"

fun wild_match :: "string \<Rightarrow> string \<Rightarrow> bool" where
  "wild_match [] [] = True"
| "wild_match [] (c # cs) = False"
| "wild_match (p # ps) [] = (p = CHR ''*'' \<and> wild_match ps [])"
| "wild_match (p # ps) (c # cs) =
     (if p = CHR ''*'' then wild_match ps (c # cs) \<or> wild_match (p # ps) cs
      else if p = CHR ''?'' then wild_match ps cs
      else p = c \<and> wild_match ps cs)"

definition has_magic :: "string \<Rightarrow> bool" where
  "has_magic p = (CHR ''*'' \<in> set p \<or> CHR ''?'' \<in> set p)"

definition dot_blocked :: "bool \<Rightarrow> string \<Rightarrow> bool" where
  "dot_blocked dot f = (f = ''.'' \<or> f = ''..'' \<or> (\<not> dot \<and> take 1 f = ''.''))"

definition seg_match :: "bool \<Rightarrow> string \<Rightarrow> string \<Rightarrow> bool" where
  "seg_match dot p f =
     (if has_magic p
      then f \<noteq> [] \<and> (take 1 p = ''.'' \<or> \<not> dot_blocked dot f) \<and> wild_match p f
      else f = p)"

fun matchOne :: "bool \<Rightarrow> string list \<Rightarrow> part list \<Rightarrow> bool" where
  "matchOne dot [] [] = True"
| "matchOne dot [] (p # ps) = False"
| "matchOne dot (f # fs) [] = (fs = [] \<and> f = [])"
| "matchOne dot (f # fs) (GLOBSTAR # ps) =
     (if ps = [] then \<not> list_ex (dot_blocked dot) (f # fs)
      else matchOne dot (f # fs) ps \<or> (\<not> dot_blocked dot f \<and> matchOne dot fs (GLOBSTAR # ps)))"
| "matchOne dot (f # fs) (Part p # ps) = (seg_match dot p f \<and> matchOne dot fs ps)"

definition file_parts :: "entry \<Rightarrow> string list" where
  "file_parts e = (if snd e then fst e @ [[]] else fst e)"

definition minimatch :: "bool \<Rightarrow> string \<Rightarrow> entry \<Rightarrow> bool" where
  "minimatch dot pattern e = matchOne dot (file_parts e) (parse_pattern pattern)"

text \<open>
  \<^verbatim>\<open>archive.glob(pattern, {cwd, ignore, dot})\<close>: the entries of the walk that match
  the pattern and none of the ignore patterns (these are always matched with
  \<^verbatim>\<open>dot\<close> set).
\<close>

definition fileMatches :: "string \<Rightarrow> string list \<Rightarrow> bool \<Rightarrow> entry \<Rightarrow> bool" where
  "fileMatches pattern ignore dot e =
     (minimatch dot pattern e \<and> \<not> list_ex (\<lambda>g. minimatch True g e) ignore)"

definition archive_glob :: "string \<Rightarrow> string list \<Rightarrow> bool \<Rightarrow> node list \<Rightarrow> entry list" where
  "archive_glob pattern ignore dot listing = filter (fileMatches pattern ignore dot) (walk_all listing)"

text \<open>
  The entries \<^verbatim>\<open>createZipFile(sourceDir, outputPath)\<close> hands to the archive: each
  entry of the walk that the glob selects, with the name it gets in the archive.
  \<open>listing\<close> is what the walk finds in \<open>sourceDir\<close>; the output file, opened before
  the walk starts, is in it when \<open>outputPath\<close> lies below \<open>sourceDir\<close>.

  The name is the archiver's work: it joins the \<^verbatim>\<open>prefix\<close> option and the relative
  path and sanitises the result (separators are normalised, backslashes become
  separators, a leading \<^verbatim>\<open>word:\<close> and leading \<^verbatim>\<open>../\<close> or \<^verbatim>\<open>/\<close> are
  dropped, a directory ends in a separator). That function of the prefix and the entry
  is the parameter \<open>name_in_archive\<close>; the source only chooses the prefix,
  \<^verbatim>\<open>projectName/\<close>.
\<close>

type_synonym archive_entry = "string \<times> entry"

definition createZipFile_entries ::
    "(string \<Rightarrow> entry \<Rightarrow> string) \<Rightarrow> string \<Rightarrow> string \<Rightarrow> node list \<Rightarrow> archive_entry list" where
  "createZipFile_entries name_in_archive sourceDir outputPath listing =
     (let projectName = basename sourceDir;
          zipFileName = basename outputPath
      in map (\<lambda>e. (name_in_archive (projectName @ ''/'') e, e))
           (archive_glob ''**/*'' [''node_modules/**'', ''.git/**'', ''dist/**'', zipFileName] True listing))"


text \<open>
  What the archiver's naming comes to for a prefix and names made of letters, digits,
  dots, dashes and underscores, where there is nothing to sanitise: the prefix, the path
  with its separators, and a closing separator for a directory.
\<close>

fun path_of :: "string list \<Rightarrow> string" where
  "path_of [] = []"
| "path_of [n] = n"
| "path_of (n # m # ns) = n @ ''/'' @ path_of (m # ns)"

definition plain_name :: "string \<Rightarrow> entry \<Rightarrow> string" where
  "plain_name prefix e = prefix @ path_of (fst e) @ (if snd e then ''/'' else [])"

text \<open>Names a file system can hold, and names free of every glob character.\<close>

definition valid_name :: "string \<Rightarrow> bool" where
  "valid_name n = (n \<noteq> [] \<and> n \<noteq> ''.'' \<and> n \<noteq> ''..'' \<and> CHR ''/'' \<notin> set n)"




text \<open>A hidden name starts with a dot; an entry is hidden when a component of its path is.\<close>

definition hidden :: "entry \<Rightarrow> bool" where
  "hidden e = list_ex (\<lambda>n. take 1 n = ''.'') (fst e)"

subsection \<open>The world and the environment\<close>

text \<open>
  An upload call (\<^verbatim>\<open>uploadBytesResumable(ref(storage, path), data, metadata)\<close>), the
  JSON body and the request of the backend call, and what goes over HTTP: a request, and
  the abort signal when the timer fires first.
\<close>

record upload_call =
  storagePath :: string
  data :: "8 word list"
  contentType :: string

record post_body =
  fileName :: string
  appName :: string

record post_request =
  url :: string
  http_method :: string
  headers :: "(string \<times> string) list"
  body :: post_body

datatype http_event = Request post_request | AbortSignal

text \<open>A parsed JSON value; an object is the list of its own properties.\<close>

datatype json = JNull | JBool bool | JNumber real | JString string
  | JArray "json list" | JObject "(string \<times> json) list"

text \<open>
  A console line is a template string: literal text, and the values put into it (the
  backend's \<^verbatim>\<open>appId\<close> is whatever JSON value the response held).
\<close>

datatype piece = Lit string | Val json

record world =
  files :: "string \<rightharpoonup> 8 word list"
  uploads :: "upload_call list"
  http_log :: "http_event list"
  console :: "piece list list"

text \<open>
  An HTTP response: the status line, and what \<^verbatim>\<open>response.json()\<close> and
  \<^verbatim>\<open>response.text()\<close> resolve or reject with.
\<close>

record response =
  status :: nat
  statusText :: string
  json_body :: "js_error + json"
  text_body :: "js_error + string"

text \<open>
  How \<^verbatim>\<open>fetch\<close> would settle if left alone: never, or so many milliseconds after
  the call, with a response or a network failure.
\<close>

datatype settlement = Responded response | Failed js_error

datatype arrival = Never | At nat settlement

text \<open>
  The environment of one run: what the user does at the prompt; the working directory
  and the clock; what the walk of the working directory finds; the archiver's naming
  and encoding of the entries it is given, and the error it reports, if any; the progress events of
  the upload and the error it ends with, if any; how the backend call would settle; the
  error \<^verbatim>\<open>unlink\<close> answers with, if any; and the rounding of floating-point
  results.
\<close>

record env =
  keys :: "key_event list"
  cwd :: string
  now :: nat
  listing :: "node list"
  name_in_archive :: "string \<Rightarrow> entry \<Rightarrow> string"
  zip_encode :: "archive_entry list \<Rightarrow> 8 word list"
  archive_error :: "js_error option"
  upload_progress :: "nat list"
  upload_error :: "js_error option"
  backend_reply :: arrival
  unlink_error :: "js_error option"
  float_round :: "real \<Rightarrow> real"

definition console_log :: "string \<Rightarrow> world \<Rightarrow> world" where
  "console_log line w = w\<lparr>console := console w @ [[Lit line]]\<rparr>"

definition console_log_value :: "string \<Rightarrow> json \<Rightarrow> world \<Rightarrow> world" where
  "console_log_value line v w = w\<lparr>console := console w @ [[Lit line, Val v]]\<rparr>"

text \<open>A string or \<^verbatim>\<open>null\<close> inside a template string.\<close>

definition show_nullable :: "string option \<Rightarrow> string" where
  "show_nullable s = (case s of None \<Rightarrow> ''null'' | Some t \<Rightarrow> t)"

text \<open>
  \<^verbatim>\<open>createZipFile\<close>. \<^verbatim>\<open>createWriteStream(outputPath)\<close> opens the file for
  writing, which creates it; when the archiver reports an error the promise is rejected
  and what was written so far stays (its bytes are not modelled: the file is left
  empty); otherwise the file ends up holding the encoded entries. The source has no
  handler for an error of the output stream itself, and the model has no such error.
\<close>

definition createZipFile :: "env \<Rightarrow> string \<Rightarrow> string \<Rightarrow> world \<Rightarrow> (js_error + unit) \<times> world" where
  "createZipFile e sourceDir outputPath w =
     (let w1 = w\<lparr>files := (files w)(outputPath \<mapsto> [])\<rparr>;
          entries = createZipFile_entries (name_in_archive e) sourceDir outputPath (listing e)
      in case archive_error e of
           Some err \<Rightarrow> (Inl err, w1)
         | None \<Rightarrow> (Inr (), console_log ''Archive size''
                      (w1\<lparr>files := (files w1)(outputPath \<mapsto> zip_encode e entries)\<rparr>)))"

subsection \<open>The uploader (\<^verbatim>\<open>uploadToFirebase\<close>)\<close>

text \<open>
  A JavaScript number that a division of two byte counts can give. The two floating-point
  operations of \<^verbatim>\<open>(bytesTransferred / totalBytes) * 100\<close> each round their exact
  result; the rounding is the parameter \<open>fl\<close>. \<^verbatim>\<open>Math.round\<close> is exact: the
  nearest integer, a tie going up.
\<close>

datatype js_number = Num real | NaN | Infinity

record snapshot =
  bytesTransferred :: nat
  totalBytes :: nat

definition js_divide :: "(real \<Rightarrow> real) \<Rightarrow> nat \<Rightarrow> nat \<Rightarrow> js_number" where
  "js_divide fl a b = (if b = 0 then (if a = 0 then NaN else Infinity) else Num (fl (real a / real b)))"

definition js_times :: "(real \<Rightarrow> real) \<Rightarrow> js_number \<Rightarrow> real \<Rightarrow> js_number" where
  "js_times fl x c = (case x of Num r \<Rightarrow> Num (fl (r * c)) | NaN \<Rightarrow> NaN | Infinity \<Rightarrow> Infinity)"

definition Math_round :: "js_number \<Rightarrow> js_number" where
  "Math_round x = (case x of Num r \<Rightarrow> Num (of_int \<lfloor>r + 1 / 2\<rfloor>) | NaN \<Rightarrow> NaN | Infinity \<Rightarrow> Infinity)"

definition progress_percent :: "(real \<Rightarrow> real) \<Rightarrow> snapshot \<Rightarrow> js_number" where
  "progress_percent fl s =
     (let progress = js_times fl (js_divide fl (bytesTransferred s) (totalBytes s)) 100
      in Math_round progress)"

text \<open>
  What the theorems below need of the rounding of floating-point results: it never
  reverses an order, and 0, 1 and 100, which are floating-point numbers, round to
  themselves. IEEE 754 rounding to nearest is such a rounding, and so is exact arithmetic.
  \<open>percent_of\<close> is the percentage as an integer, for a buffer that is not empty.
\<close>

definition rounds_like_ieee :: "(real \<Rightarrow> real) \<Rightarrow> bool" where
  "rounds_like_ieee fl = (mono fl \<and> fl 0 = 0 \<and> fl 1 = 1 \<and> fl 100 = 100)"

definition percent_of :: "(real \<Rightarrow> real) \<Rightarrow> nat \<Rightarrow> nat \<Rightarrow> int" where
  "percent_of fl tot b = \<lfloor>fl (fl (real b / real tot) * 100) + 1 / 2\<rfloor>"

definition show_number :: "js_number \<Rightarrow> string" where
  "show_number x =
     (case x of
        Num r \<Rightarrow> (if r < 0 then ''-'' else []) @ String_of_nat (nat \<lfloor>\<bar>r\<bar>\<rfloor>)
      | NaN \<Rightarrow> ''NaN''
      | Infinity \<Rightarrow> ''Infinity'')"

definition progressText :: "(real \<Rightarrow> real) \<Rightarrow> snapshot \<Rightarrow> string" where
  "progressText fl s = ''Uploading... '' @ show_number (progress_percent fl s) @ ''%''"

text \<open>
  \<^verbatim>\<open>uploadToFirebase\<close>. The task reports \<open>upload_progress\<close>, the bytes transferred at
  each \<^verbatim>\<open>state_changed\<close> event, against the size of the buffer, and then fails
  with \<open>upload_error\<close> or completes. Each event sets the spinner's text, which the
  console field records.
\<close>

definition uploadToFirebase :: "env \<Rightarrow> string \<Rightarrow> string \<Rightarrow> AuthUser \<Rightarrow> world \<Rightarrow> (js_error + string) \<times> world" where
  "uploadToFirebase e filePath file_name u w =
     (case files w filePath of
        None \<Rightarrow> (Inl (JsError ''Error'' ''ENOENT: no such file or directory'' (Some ''ENOENT'')), w)
      | Some fileBuffer \<Rightarrow>
          (let storage_path = ''source_files/'' @ uid u @ ''/'' @ file_name;
               metadata = ''application/zip'';
               w1 = w\<lparr>uploads := uploads w @
                      [\<lparr>storagePath = storage_path, data = fileBuffer, contentType = metadata\<rparr>]\<rparr>;
               w2 = w1\<lparr>console := console w1 @
                      map (\<lambda>b. [Lit (progressText (float_round e)
                                  \<lparr>bytesTransferred = b, totalBytes = length fileBuffer\<rparr>)])
                          (upload_progress e)\<rparr>
           in case upload_error e of
                Some err \<Rightarrow> (Inl err, w2)
              | None \<Rightarrow> (Inr file_name,
                          if upload_progress e = [] then w2 else console_log ''Upload completed!'' w2)))"

subsection \<open>The backend publisher (\<^verbatim>\<open>createAppInBackend\<close>)\<close>

definition BACKEND_ENDPOINT :: string where
  "BACKEND_ENDPOINT = ''https://anomaly-git-app-apidon.vercel.app/api/createApp''"

text \<open>The delay of \<^verbatim>\<open>setTimeout(() => controller.abort(), 30000)\<close>, in milliseconds.\<close>

definition TIMEOUT_MS :: nat where
  "TIMEOUT_MS = 30000"

definition AbortError :: js_error where
  "AbortError = JsError ''AbortError'' ''This operation was aborted'' None"

text \<open>
  \<^verbatim>\<open>fetch\<close> with the abort signal of a timer: what settles first wins. A fetch
  that settles before the timer fires settles as it would alone; otherwise the timer
  aborts the request, and \<^verbatim>\<open>fetch\<close> rejects with an \<^verbatim>\<open>AbortError\<close>.
\<close>

definition fetch_with_timeout :: "nat \<Rightarrow> arrival \<Rightarrow> post_request \<Rightarrow> world \<Rightarrow> (js_error + response) \<times> world" where
  "fetch_with_timeout timeout a req w =
     (let w1 = w\<lparr>http_log := http_log w @ [Request req]\<rparr>;
          aborted = (Inl AbortError, w1\<lparr>http_log := http_log w1 @ [AbortSignal]\<rparr>)
      in case a of
           Never \<Rightarrow> aborted
         | At t s \<Rightarrow>
             if t < timeout
             then (case s of Responded r \<Rightarrow> (Inr r, w1) | Failed err \<Rightarrow> (Inl err, w1))
             else aborted)"

definition ok :: "response \<Rightarrow> bool" where
  "ok r = (200 \<le> status r \<and> status r \<le> 299)"

text \<open>
  \<^verbatim>\<open>responseData.appId\<close>: reading a property of \<^verbatim>\<open>null\<close> throws a
  \<^verbatim>\<open>TypeError\<close>; an object gives the property or \<^verbatim>\<open>undefined\<close> (\<open>None\<close>);
  no other JSON value has the property. \<open>truthy\<close> is what \<^verbatim>\<open>!appId\<close> negates.
\<close>

definition get_property :: "json \<Rightarrow> string \<Rightarrow> js_error + json option" where
  "get_property v key =
     (case v of
        JNull \<Rightarrow> Inl (JsError ''TypeError''
                   (''Cannot read properties of null (reading '' @ [CHR 0x27] @ key @ [CHR 0x27] @ '')'') None)
      | JObject props \<Rightarrow> Inr (map_of props key)
      | _ \<Rightarrow> Inr None)"

fun truthy :: "json option \<Rightarrow> bool" where
  "truthy None = False"
| "truthy (Some JNull) = False"
| "truthy (Some (JBool b)) = b"
| "truthy (Some (JNumber n)) = (n \<noteq> 0)"
| "truthy (Some (JString s)) = (s \<noteq> [])"
| "truthy (Some (JArray xs)) = True"
| "truthy (Some (JObject props)) = True"

text \<open>
  The \<^verbatim>\<open>try\<close> block of \<^verbatim>\<open>createAppInBackend\<close>. \<^verbatim>\<open>!appId\<close> holds of
  \<^verbatim>\<open>undefined\<close> and of every property value that is not \<open>truthy\<close>.
\<close>

definition backend_try :: "env \<Rightarrow> string \<Rightarrow> string \<Rightarrow> AuthUser \<Rightarrow> world \<Rightarrow> (js_error + json) \<times> world" where
  "backend_try e file_name app_name u w =
     (case getIdToken (user u) of
        Inl err \<Rightarrow> (Inl err, w)
      | Inr authToken \<Rightarrow>
          (let req = \<lparr>url = BACKEND_ENDPOINT, http_method = ''POST'',
                      headers = [(''authorization'', authToken), (''Content-Type'', ''application/json'')],
                      body = \<lparr>fileName = file_name, appName = app_name\<rparr>\<rparr>
           in case fetch_with_timeout TIMEOUT_MS (backend_reply e) req w of
                (Inl err, w1) \<Rightarrow> (Inl err, w1)
              | (Inr r, w1) \<Rightarrow>
                  if ok r
                  then (case json_body r of
                          Inl err \<Rightarrow> (Inl err, w1)
                        | Inr responseData \<Rightarrow>
                            (case get_property responseData ''appId'' of
                               Inl err \<Rightarrow> (Inl err, w1)
                             | Inr appId \<Rightarrow>
                                 (case appId of
                                    None \<Rightarrow> (Inl (new_Error ''Deployment service did not return a valid app ID''), w1)
                                  | Some v \<Rightarrow>
                                      if \<not> truthy (Some v)
                                      then (Inl (new_Error ''Deployment service did not return a valid app ID''), w1)
                                      else (Inr v, w1))))
                  else (let errorMessage = (case text_body r of Inr errorData \<Rightarrow> errorData | Inl _ \<Rightarrow> statusText r)
                        in (Inl (new_Error (''Deployment service error ('' @ String_of_nat (status r) @ ''): '' @ errorMessage)), w1))))"

text \<open>The \<^verbatim>\<open>catch\<close> block: every failure of the \<^verbatim>\<open>try\<close> block is rethrown as one of three errors.\<close>

definition backend_catch :: "js_error \<Rightarrow> js_error" where
  "backend_catch error =
     (if error_name error = ''AbortError''
      then new_Error ''Request timed out after 30 seconds - please check your internet connection''
      else if str_includes (error_message error) ''fetch''
      then new_Error ''Unable to reach deployment service - please verify your internet connection''
      else new_Error (''Deployment request failed: '' @ error_message error))"

definition createAppInBackend :: "env \<Rightarrow> string \<Rightarrow> string \<Rightarrow> AuthUser \<Rightarrow> world \<Rightarrow> (js_error + json) \<times> world" where
  "createAppInBackend e file_name app_name u w =
     (case backend_try e file_name app_name u w of
        (Inl error, w1) \<Rightarrow> (Inl (backend_catch error), w1)
      | (Inr appId, w1) \<Rightarrow> (Inr appId, w1))"

subsection \<open>The workflow (\<^verbatim>\<open>createApp\<close>) and the \<^verbatim>\<open>init\<close> command\<close>

text \<open>
  \<^verbatim>\<open>fs.unlink(path)\<close>: rejects when there is no such file, or when the file system
  refuses (\<open>unlink_error\<close>); otherwise the file is gone.
\<close>

definition unlink :: "env \<Rightarrow> string \<Rightarrow> world \<Rightarrow> (js_error + unit) \<times> world" where
  "unlink e p w =
     (case files w p of
        None \<Rightarrow> (Inl (JsError ''Error'' ''ENOENT: no such file or directory'' (Some ''ENOENT'')), w)
      | Some _ \<Rightarrow>
          (case unlink_error e of
             Some err \<Rightarrow> (Inl err, w)
           | None \<Rightarrow> (Inr (), w\<lparr>files := (files w)(p := None)\<rparr>)))"

text \<open>The \<^verbatim>\<open>finally\<close> block: unlink the archive; a failure is caught and reported as a warning.\<close>

definition cleanup :: "env \<Rightarrow> string \<Rightarrow> world \<Rightarrow> world" where
  "cleanup e tempZipPath w =
     (case unlink e tempZipPath w of
        (Inr _, w1) \<Rightarrow> console_log ''Temporary files cleaned up'' w1
      | (Inl cleanupError, w1) \<Rightarrow> console_log ''Warning: Could not remove temporary archive file'' w1)"

text \<open>Steps 3 and 4, the body of the \<^verbatim>\<open>try\<close> that the \<^verbatim>\<open>finally\<close> block guards.\<close>

definition upload_and_publish :: "env \<Rightarrow> string \<Rightarrow> string \<Rightarrow> string \<Rightarrow> AuthUser \<Rightarrow> world \<Rightarrow> (js_error + unit) \<times> world" where
  "upload_and_publish e tempZipPath zipFileName app_name u w =
     (case uploadToFirebase e tempZipPath zipFileName u w of
        (Inl error, w1) \<Rightarrow> (Inl error, w1)
      | (Inr uploadedFileName, w1) \<Rightarrow>
          (let w2 = console_log ''Upload completed successfully'' w1;
               w3 = console_log (''Cloud file: '' @ uploadedFileName) w2;
               w4 = console_log ''Requesting app deployment from backend service...'' w3
           in case createAppInBackend e uploadedFileName app_name u w4 of
                (Inl error, w5) \<Rightarrow> (Inl error, w5)
              | (Inr appId, w5) \<Rightarrow>
                  (let w6 = console_log ''Application deployed successfully!'' w5;
                       w7 = console_log (''App Name: '' @ app_name) w6;
                       w8 = console_log_value ''App ID: '' appId w7;
                       w9 = console_log (''Source Archive: '' @ uploadedFileName) w8;
                       w10 = console_log ''Your app dashboard is ready:'' w9;
                       w11 = console_log_value ''https://anomaly-git-app-apidon.vercel.app/dashboard/'' appId w10;
                       w12 = console_log ''Visit the dashboard URL above to manage your application'' w11
                   in (Inr (), w12))))"

text \<open>The \<^verbatim>\<open>try\<close> with its \<^verbatim>\<open>finally\<close>: whatever steps 3 and 4 give, the clean-up runs, and their result stands.\<close>

definition upload_publish_cleanup :: "env \<Rightarrow> string \<Rightarrow> string \<Rightarrow> string \<Rightarrow> AuthUser \<Rightarrow> world \<Rightarrow> (js_error + unit) \<times> world" where
  "upload_publish_cleanup e tempZipPath zipFileName app_name u w =
     (let r = upload_and_publish e tempZipPath zipFileName app_name u w
      in (fst r, cleanup e tempZipPath (snd r)))"

text \<open>
  The name and the path of the archive, from the working directory and the clock
  (\<^verbatim>\<open>Date.now()\<close>).
\<close>

definition zipFileName_of :: "env \<Rightarrow> string" where
  "zipFileName_of e = basename (cwd e) @ ''-'' @ String_of_nat (now e) @ ''.zip''"

definition tempZipPath_of :: "env \<Rightarrow> string" where
  "tempZipPath_of e = path_join (cwd e) (zipFileName_of e)"

text \<open>
  Steps 2 to 4 of \<^verbatim>\<open>createApp\<close>, once the app name is known: the archive, whose
  failure is rethrown at once, outside the \<^verbatim>\<open>finally\<close> block; then the upload and
  the backend call inside it.
\<close>

definition archive_and_deploy :: "env \<Rightarrow> AuthUser \<Rightarrow> string \<Rightarrow> world \<Rightarrow> (js_error + unit) \<times> world" where
  "archive_and_deploy e u app_name w =
     (let currentDir = cwd e;
          projectName = basename currentDir;
          zipFileName = zipFileName_of e;
          tempZipPath = tempZipPath_of e;
          w1 = console_log ''Preparing project archive for deployment'' w;
          w2 = console_log (''Project: '' @ projectName) w1;
          w3 = console_log (''Source: '' @ currentDir) w2
      in case createZipFile e currentDir tempZipPath w3 of
           (Inl error, w4) \<Rightarrow> (Inl error, w4)
         | (Inr _, w4) \<Rightarrow>
             (let w5 = console_log ''Uploading project archive to cloud storage...'' w4
              in case upload_publish_cleanup e tempZipPath zipFileName app_name u w5 of
                   (Inl error, w6) \<Rightarrow> (Inl error, w6)
                 | (Inr _, w6) \<Rightarrow> (Inr (), console_log ''App creation completed successfully!'' w6)))"

text \<open>
  The outer \<^verbatim>\<open>try\<close> block of \<^verbatim>\<open>createApp\<close>: the prompt, whose validation
  messages go to the console; no answer, or an empty one, ends the workflow; any other
  answer is trimmed and the steps above run.
\<close>

definition createApp_try :: "env \<Rightarrow> AuthUser \<Rightarrow> world \<Rightarrow> (js_error + unit) \<times> world" where
  "createApp_try e u w =
     (let w1 = console_log (''Initializing new app creation for '' @ show_nullable (email u)) w;
          appNameResponse = prompts_text validate_appName (keys e);
          w2 = w1\<lparr>console := console w1 @ map (\<lambda>msg. [Lit msg]) (fst appNameResponse)\<rparr>
      in case snd appNameResponse of
           None \<Rightarrow> (Inr (), console_log ''App creation cancelled by user'' w2)
         | Some answer \<Rightarrow>
             if answer = [] then (Inr (), console_log ''App creation cancelled by user'' w2)
             else
               (let app_name = trim answer;
                    w3 = console_log (''App name confirmed: '' @ app_name) w2
                in archive_and_deploy e u app_name w3))"

text \<open>
  \<^verbatim>\<open>createApp\<close>: the outer \<^verbatim>\<open>catch\<close> turns an \<^verbatim>\<open>ExitPromptError\<close> into a
  normal return and reports and rethrows every other error.
\<close>

definition createApp :: "env \<Rightarrow> AuthUser \<Rightarrow> world \<Rightarrow> (js_error + unit) \<times> world" where
  "createApp e u w =
     (case createApp_try e u w of
        (Inr _, w1) \<Rightarrow> (Inr (), w1)
      | (Inl error, w1) \<Rightarrow>
          if error_name error = ''ExitPromptError''
          then (Inr (), console_log ''App creation cancelled by user'' w1)
          else (Inl error,
                console_log ''Please check your connection and try again''
                  (console_log (''App creation failed: '' @ error_message error) w1)))"

text \<open>
  The \<^verbatim>\<open>init\<close> command of \<^verbatim>\<open>src/index.ts\<close>, once \<^verbatim>\<open>requireAuth\<close> has given
  the user, and the exit status of the process. The action's promise is not awaited, so
  an error that \<^verbatim>\<open>createApp\<close> rethrows is an unhandled rejection, which the runtime
  (Node 16 or later) hands to the \<^verbatim>\<open>uncaughtException\<close> handler.
\<close>

definition uncaughtException :: "js_error \<Rightarrow> world \<Rightarrow> nat \<times> world" where
  "uncaughtException error w =
     (if error_name error = ''ExitPromptError''
      then (0, console_log ''Until next time!'' w)
      else (1, console_log (''An unexpected error occurred: '' @ error_message error) w))"

definition init_action :: "env \<Rightarrow> AuthUser \<Rightarrow> world \<Rightarrow> nat \<times> world" where
  "init_action e u w =
     (case createApp e u w of
        (Inr _, w1) \<Rightarrow> (0, w1)
      | (Inl error, w1) \<Rightarrow> uncaughtException error w1)"

text \<open>
  Two worlds on the way through \<^verbatim>\<open>createApp\<close>, named for the proofs: the one in
  which the archive step starts, after the prompt gave \<open>answer\<close>, and the one in which
  the upload starts, after the archive step.
\<close>

definition world_after_prompt :: "env \<Rightarrow> AuthUser \<Rightarrow> string \<Rightarrow> world \<Rightarrow> world" where
  "world_after_prompt e u answer w =
     console_log (''App name confirmed: '' @ trim answer)
       ((console_log (''Initializing new app creation for '' @ show_nullable (email u)) w)
          \<lparr>console := console (console_log (''Initializing new app creation for '' @ show_nullable (email u)) w)
                @ map (\<lambda>msg. [Lit msg]) (fst (prompts_text validate_appName (keys e)))\<rparr>)"

definition world_before_upload :: "env \<Rightarrow> world \<Rightarrow> world" where
  "world_before_upload e w =
     console_log ''Uploading project archive to cloud storage...''
       (snd (createZipFile e (cwd e) (tempZipPath_of e)
          (console_log (''Source: '' @ cwd e)
            (console_log (''Project: '' @ basename (cwd e))
              (console_log ''Preparing project archive for deployment'' w)))))"

subsection \<open>A sample run\<close>

text \<open>
  A signed-in user in the directory \<^verbatim>\<open>/p\<close>, which holds one file besides the
  archive being written; every service answers, the backend with HTTP 200 and an
  \<^verbatim>\<open>appId\<close>.
\<close>

definition user0 :: AuthUser where
  "user0 = \<lparr>uid = ''u1'', email = Some ''a@b.co'', displayName = None,
     user = \<lparr>user_uid = ''u1'', user_email = Some ''a@b.co'', user_displayName = None,
             getIdToken = Inr ''tok''\<rparr>\<rparr>"

definition response0 :: response where
  "response0 = \<lparr>status = 200, statusText = ''OK'',
     json_body = Inr (JObject [(''appId'', JString ''abc123'')]),
     text_body = Inr (''{'' @ [CHR 0x22] @ ''appId'' @ [CHR 0x22] @ '':'' @ [CHR 0x22] @ ''abc123'' @ [CHR 0x22] @ ''}'')\<rparr>"

definition env0 :: env where
  "env0 = \<lparr>keys = [Submit ''shop''], cwd = ''/p'', now = 5,
     listing = [File ''a.txt'', File ''p-5.zip''],
     name_in_archive = plain_name, zip_encode = (\<lambda>es. [80, 75, 5, 6]), archive_error = None,
     upload_progress = [2, 4], upload_error = None,
     backend_reply = At 120 (Responded response0),
     unlink_error = None, float_round = (\<lambda>x. x)\<rparr>"

definition w0 :: world where
  "w0 = \<lparr>files = Map.empty, uploads = [], http_log = [], console = []\<rparr>"

section \<open>Properties\<close>

subsection \<open>Authentication errors\<close>

lemma getAuthErrorMessage_in_messages: "getAuthErrorMessage c \<in> set auth_messages"
  by (simp add: getAuthErrorMessage_def auth_messages_def)

lemma auth_messages_hide_code: "m \<in> set auth_messages \<Longrightarrow> \<not> str_includes m ''auth/''"
  by (auto simp add: auth_messages_def is_prefix_def)

text \<open>
  C9. For every provider error code (and for a missing one) \<open>getAuthErrorMessage\<close>
  returns one of seven fixed messages: the message of its own for each of the six codes
  the tool knows (unknown account, wrong password, existing account, weak password,
  invalid e-mail, rate limiting) and the generic "Authentication failed" message for
  every other code. A sign-in or sign-up that the provider rejects fails with a plain
  \<^verbatim>\<open>Error\<close> whose message is that mapped message: it has no code of its own,
  and no provider code (\<^verbatim>\<open>auth/...\<close>) occurs in it.
\<close>

theorem auth_error_mapping:
  "getAuthErrorMessage (Some ''auth/user-not-found'') = ''No account found with this email address.''
   \<and> getAuthErrorMessage (Some ''auth/wrong-password'') = ''Incorrect password.''
   \<and> getAuthErrorMessage (Some ''auth/email-already-in-use'') = ''An account with this email already exists.''
   \<and> getAuthErrorMessage (Some ''auth/weak-password'') = ''Password should be at least 6 characters.''
   \<and> getAuthErrorMessage (Some ''auth/invalid-email'') = ''Invalid email address.''
   \<and> getAuthErrorMessage (Some ''auth/too-many-requests'') = ''Too many failed attempts. Please try again later.''
   \<and> (code \<notin> Some ` set known_codes \<longrightarrow> getAuthErrorMessage code = ''Authentication failed. Please try again.'')
   \<and> getAuthErrorMessage code \<in> set auth_messages
   \<and> \<not> str_includes (getAuthErrorMessage code) ''auth/''
   \<and> (provider e p = Inl err \<longrightarrow>
        signIn provider e p = Inl (JsError ''Error'' (getAuthErrorMessage (error_code err)) None)
        \<and> signUp provider e p = Inl (JsError ''Error'' (getAuthErrorMessage (error_code err)) None))"
proof -
  have known: "getAuthErrorMessage (Some ''auth/user-not-found'') = ''No account found with this email address.''"
    "getAuthErrorMessage (Some ''auth/wrong-password'') = ''Incorrect password.''"
    "getAuthErrorMessage (Some ''auth/email-already-in-use'') = ''An account with this email already exists.''"
    "getAuthErrorMessage (Some ''auth/weak-password'') = ''Password should be at least 6 characters.''"
    "getAuthErrorMessage (Some ''auth/invalid-email'') = ''Invalid email address.''"
    "getAuthErrorMessage (Some ''auth/too-many-requests'') = ''Too many failed attempts. Please try again later.''"
    by (simp_all add: getAuthErrorMessage_def)
  have unknown: "code \<notin> Some ` set known_codes \<longrightarrow> getAuthErrorMessage code = ''Authentication failed. Please try again.''"
    by (simp add: getAuthErrorMessage_def known_codes_def)
  have hidden: "\<not> str_includes (getAuthErrorMessage code) ''auth/''"
    using getAuthErrorMessage_in_messages auth_messages_hide_code by blast
  have failing: "provider e p = Inl err \<longrightarrow>
        signIn provider e p = Inl (JsError ''Error'' (getAuthErrorMessage (error_code err)) None)
        \<and> signUp provider e p = Inl (JsError ''Error'' (getAuthErrorMessage (error_code err)) None)"
    by (simp add: signIn_def signUp_def new_Error_def)
  from known unknown hidden failing getAuthErrorMessage_in_messages show ?thesis
    by blast
qed

theorem auth_error_mapping_witness:
  "Some ''auth/quota-exceeded'' \<notin> Some ` set known_codes
   \<and> getAuthErrorMessage (Some ''auth/quota-exceeded'') = ''Authentication failed. Please try again.''
   \<and> signIn (\<lambda>e p. Inl (JsError ''FirebaseError'' ''Firebase: Error (auth/wrong-password).'' (Some ''auth/wrong-password'')))
        ''a@b.co'' ''secret1'' = Inl (JsError ''Error'' ''Incorrect password.'' None)"
  using auth_error_mapping [of "Some ''auth/quota-exceeded''"
      "\<lambda>e p. Inl (JsError ''FirebaseError'' ''Firebase: Error (auth/wrong-password).'' (Some ''auth/wrong-password''))"
      "''a@b.co''" "''secret1''"
      "JsError ''FirebaseError'' ''Firebase: Error (auth/wrong-password).'' (Some ''auth/wrong-password'')"]
  by (simp add: known_codes_def)

subsection \<open>The app-name prompt\<close>

text \<open>
  C4. The validator of the app-name prompt accepts an input exactly when its length is
  between 3 and 50 inclusive. A shorter input is rejected with the message "App name
  must be at least 3 characters long", a longer one with "App name must be less than 50
  characters"; a rejected line shows its message and the prompt goes on with what the
  user does next, an accepted line is the prompt's answer.
\<close>

theorem validate_appName_accepts_3_to_50:
  "(validate_appName v = Valid) = (3 \<le> length v \<and> length v \<le> 50)
   \<and> (length v < 3 \<longrightarrow> validate_appName v = Invalid ''App name must be at least 3 characters long'')
   \<and> (50 < length v \<longrightarrow> validate_appName v = Invalid ''App name must be less than 50 characters'')
   \<and> (3 \<le> length v \<and> length v \<le> 50 \<longrightarrow> prompts_text validate_appName (Submit v # rest) = ([], Some v))
   \<and> (length v < 3 \<or> 50 < length v \<longrightarrow>
        (\<exists>msg. validate_appName v = Invalid msg
           \<and> prompts_text validate_appName (Submit v # rest)
             = (msg # fst (prompts_text validate_appName rest), snd (prompts_text validate_appName rest))))"
  by (auto simp add: validate_appName_def)

theorem validate_appName_accepts_3_to_50_witness:
  "validate_appName ''abc'' = Valid
   \<and> validate_appName ''ab'' = Invalid ''App name must be at least 3 characters long''
   \<and> validate_appName (replicate 51 CHR ''x'') = Invalid ''App name must be less than 50 characters''
   \<and> validate_appName (replicate 50 CHR ''x'') = Valid
   \<and> prompts_text validate_appName [Submit ''ab'', Submit ''shop''] = ([''App name must be at least 3 characters long''], Some ''shop'')"
  using validate_appName_accepts_3_to_50 [of "''abc''" "[]"]
    validate_appName_accepts_3_to_50 [of "''ab''" "[Submit ''shop'']"]
    validate_appName_accepts_3_to_50 [of "replicate 51 CHR ''x''" "[]"]
    validate_appName_accepts_3_to_50 [of "replicate 50 CHR ''x''" "[]"]
    validate_appName_accepts_3_to_50 [of "''shop''" "[]"]
  by simp

subsection \<open>The uploader\<close>

text \<open>
  C7. Whenever the archive can be read, \<open>uploadToFirebase\<close> makes one upload call: to
  the storage path \<^verbatim>\<open>source_files/{uid}/{fileName}\<close>, \<open>uid\<close> being the user's
  identifier and \<open>fileName\<close> the remote name it was given, with the bytes of the archive
  and the content type \<^verbatim>\<open>application/zip\<close>. When the upload completes it returns
  exactly that remote name; when the upload fails it fails with the upload's error.
\<close>

theorem uploadToFirebase_path_and_result:
  "files w filePath = Some fileBuffer \<Longrightarrow>
     uploads (snd (uploadToFirebase e filePath file_name u w))
       = uploads w @ [\<lparr>storagePath = ''source_files/'' @ uid u @ ''/'' @ file_name, data = fileBuffer,
                       contentType = ''application/zip''\<rparr>]
     \<and> (upload_error e = None \<longrightarrow> fst (uploadToFirebase e filePath file_name u w) = Inr file_name)
     \<and> (\<forall>err. upload_error e = Some err \<longrightarrow> fst (uploadToFirebase e filePath file_name u w) = Inl err)"
  by (simp add: uploadToFirebase_def Let_def console_log_def split: option.splits)

theorem uploadToFirebase_path_and_result_witness:
  "uploads (snd (uploadToFirebase env0 ''/p/p-5.zip'' ''p-5.zip'' user0 (w0\<lparr>files := [''/p/p-5.zip'' \<mapsto> [80, 75, 5, 6]]\<rparr>)))
       = [\<lparr>storagePath = ''source_files/u1/p-5.zip'', data = [80, 75, 5, 6], contentType = ''application/zip''\<rparr>]
   \<and> fst (uploadToFirebase env0 ''/p/p-5.zip'' ''p-5.zip'' user0 (w0\<lparr>files := [''/p/p-5.zip'' \<mapsto> [80, 75, 5, 6]]\<rparr>)) = Inr ''p-5.zip''"
  using uploadToFirebase_path_and_result [of "w0\<lparr>files := [''/p/p-5.zip'' \<mapsto> [80, 75, 5, 6]]\<rparr>" "''/p/p-5.zip''" "[80, 75, 5, 6]" env0 "''p-5.zip''" user0]
  by (simp add: env0_def user0_def w0_def)


text \<open>
  For a buffer of \<open>tot > 0\<close> bytes the percentage is the integer \<open>percent_of\<close>; it
  grows with the bytes transferred, lies between 0 and 100, and is 100 at the end.
\<close>

lemma progress_percent_Num:
  "0 < tot \<Longrightarrow> progress_percent fl \<lparr>bytesTransferred = b, totalBytes = tot\<rparr> = Num (of_int (percent_of fl tot b))"
  by (simp add: progress_percent_def js_divide_def js_times_def Math_round_def percent_of_def)

lemma percent_of_mono:
  assumes "rounds_like_ieee fl" and "0 < tot" and "b \<le> c"
  shows "percent_of fl tot b \<le> percent_of fl tot c"
proof -
  from assms(1) have m: "mono fl" by (simp add: rounds_like_ieee_def)
  from assms(2,3) have "real b / real tot \<le> real c / real tot"
    by (simp add: divide_right_mono)
  with m have "fl (real b / real tot) \<le> fl (real c / real tot)"
    by (rule monoD)
  then have "fl (real b / real tot) * 100 \<le> fl (real c / real tot) * 100"
    by simp
  with m have "fl (fl (real b / real tot) * 100) \<le> fl (fl (real c / real tot) * 100)"
    by (rule monoD)
  then show ?thesis
    unfolding percent_of_def by (intro floor_mono) simp
qed

lemma percent_of_range:
  assumes "rounds_like_ieee fl" and "0 < tot" and "b \<le> tot"
  shows "0 \<le> percent_of fl tot b \<and> percent_of fl tot b \<le> 100"
proof -
  from assms(1) have m: "mono fl" and z: "fl 0 = 0" and o: "fl 1 = 1" and h: "fl 100 = 100"
    by (simp_all add: rounds_like_ieee_def)
  from assms(2,3) have q: "0 \<le> real b / real tot" "real b / real tot \<le> 1"
    by simp_all
  from monoD [OF m q(1)] z have q0: "0 \<le> fl (real b / real tot)" by simp
  from monoD [OF m q(2)] o have q1: "fl (real b / real tot) \<le> 1" by simp
  from q0 have "0 \<le> fl (real b / real tot) * 100" by simp
  from monoD [OF m this] z have p0: "0 \<le> fl (fl (real b / real tot) * 100)" by simp
  from q1 have "fl (real b / real tot) * 100 \<le> 100" by simp
  from monoD [OF m this] h have p1: "fl (fl (real b / real tot) * 100) \<le> 100" by simp
  from p0 have "0 \<le> percent_of fl tot b"
    unfolding percent_of_def by simp
  moreover from p1 have "percent_of fl tot b \<le> 100"
    unfolding percent_of_def by linarith
  ultimately show ?thesis by simp
qed

lemma percent_of_complete:
  assumes "rounds_like_ieee fl" and "0 < tot"
  shows "percent_of fl tot tot = 100"
  using assms by (simp add: percent_of_def rounds_like_ieee_def)

lemma sorted_map_percent:
  assumes "rounds_like_ieee fl" and "0 < tot"
  shows "sorted bs \<Longrightarrow> sorted (map (percent_of fl tot) bs)"
proof (induction bs)
  case Nil
  then show ?case by simp
next
  case (Cons b bs)
  then show ?case
    using percent_of_mono [OF assms] by auto
qed

lemma exact_rounds_like_ieee: "rounds_like_ieee (\<lambda>x. x)"
  by (simp add: rounds_like_ieee_def mono_def)


text \<open>An empty buffer has no percentage: \<^verbatim>\<open>0 / 0\<close> is \<^verbatim>\<open>NaN\<close>, and so is what is shown.\<close>

lemma progress_percent_empty_upload:
  "progress_percent fl \<lparr>bytesTransferred = 0, totalBytes = 0\<rparr> = NaN"
  by (simp add: progress_percent_def js_divide_def js_times_def Math_round_def)

text \<open>
  What an event shows for a buffer that is not empty, and what the whole upload writes
  to the console.
\<close>

lemma show_number_of_int:
  "0 \<le> p \<Longrightarrow> show_number (Num (of_int p)) = String_of_nat (nat p)"
  by (simp add: show_number_def)

lemma String_of_nat_100: "String_of_nat 100 = ''100''"
  by (simp add: String_of_nat.simps [of 100] String_of_nat.simps [of 10] String_of_nat.simps [of "Suc 0"] digit_char_def)

lemma progressText_percent:
  assumes "rounds_like_ieee fl" and "0 < tot" and "b \<le> tot"
  shows "progressText fl \<lparr>bytesTransferred = b, totalBytes = tot\<rparr>
           = ''Uploading... '' @ String_of_nat (nat (percent_of fl tot b)) @ ''%''"
proof -
  from percent_of_range [OF assms] have "0 \<le> percent_of fl tot b"
    by simp
  then show ?thesis
    using assms(2) by (simp add: progressText_def progress_percent_Num show_number_of_int)
qed

lemma uploadToFirebase_console:
  "files w filePath = Some fileBuffer \<Longrightarrow>
   console (snd (uploadToFirebase e filePath file_name u w))
     = console w
       @ map (\<lambda>b. [Lit (progressText (float_round e) \<lparr>bytesTransferred = b, totalBytes = length fileBuffer\<rparr>)])
           (upload_progress e)
       @ (if upload_error e = None \<and> upload_progress e \<noteq> [] then [[Lit ''Upload completed!'']] else [])"
  by (simp add: uploadToFirebase_def Let_def console_log_def split: option.splits)

text \<open>
  C8, as the code has it. When \<open>uploadToFirebase\<close> uploads a buffer that is not
  empty, and the upload's progress events report bytes transferred that do not decrease
  and do not exceed the buffer's size, the console gets one line
  \<^verbatim>\<open>Uploading... N%\<close> for each event, in the order of the events, and after them
  \<^verbatim>\<open>Upload completed!\<close> when the upload succeeds and there was an event. \<open>N\<close>
  is \<^verbatim>\<open>Math.round(bytesTransferred / totalBytes * 100)\<close>, a number at every event;
  these percentages do not decrease, each lies between 0 and 100, and the percentage is
  exactly 100, shown as \<^verbatim>\<open>Uploading... 100%\<close>, at an event that reports all bytes
  transferred. This holds for every rounding of the two floating-point operations that
  keeps the order and leaves 0, 1 and 100 as they are.
\<close>

theorem uploadToFirebase_reports_percentages:
  assumes "rounds_like_ieee (float_round e)" and "files w filePath = Some fileBuffer" and "fileBuffer \<noteq> []"
    and "sorted (upload_progress e)" and "\<forall>b\<in>set (upload_progress e). b \<le> length fileBuffer"
  shows "console (snd (uploadToFirebase e filePath file_name u w))
           = console w
             @ map (\<lambda>b. [Lit (''Uploading... '' @ String_of_nat (nat (percent_of (float_round e) (length fileBuffer) b)) @ ''%'')])
                 (upload_progress e)
             @ (if upload_error e = None \<and> upload_progress e \<noteq> [] then [[Lit ''Upload completed!'']] else [])
     \<and> map (\<lambda>b. progress_percent (float_round e) \<lparr>bytesTransferred = b, totalBytes = length fileBuffer\<rparr>) (upload_progress e)
           = map (\<lambda>b. Num (of_int (percent_of (float_round e) (length fileBuffer) b))) (upload_progress e)
     \<and> sorted (map (percent_of (float_round e) (length fileBuffer)) (upload_progress e))
     \<and> (\<forall>b\<in>set (upload_progress e). 0 \<le> percent_of (float_round e) (length fileBuffer) b
            \<and> percent_of (float_round e) (length fileBuffer) b \<le> 100)
     \<and> percent_of (float_round e) (length fileBuffer) (length fileBuffer) = 100
     \<and> progress_percent (float_round e) \<lparr>bytesTransferred = length fileBuffer, totalBytes = length fileBuffer\<rparr> = Num 100
     \<and> progressText (float_round e) \<lparr>bytesTransferred = length fileBuffer, totalBytes = length fileBuffer\<rparr>
           = ''Uploading... 100%''"
proof -
  let ?fl = "float_round e" and ?tot = "length fileBuffer"
  from assms(3) have pos: "0 < ?tot"
    by simp
  have texts: "map (\<lambda>b. [Lit (progressText ?fl \<lparr>bytesTransferred = b, totalBytes = ?tot\<rparr>)]) (upload_progress e)
      = map (\<lambda>b. [Lit (''Uploading... '' @ String_of_nat (nat (percent_of ?fl ?tot b)) @ ''%'')]) (upload_progress e)"
    using assms(5) by (simp add: progressText_percent [OF assms(1) pos])
  have shown: "console (snd (uploadToFirebase e filePath file_name u w))
           = console w
             @ map (\<lambda>b. [Lit (''Uploading... '' @ String_of_nat (nat (percent_of ?fl ?tot b)) @ ''%'')])
                 (upload_progress e)
             @ (if upload_error e = None \<and> upload_progress e \<noteq> [] then [[Lit ''Upload completed!'']] else [])"
    unfolding uploadToFirebase_console [OF assms(2)] texts ..
  have numbers: "map (\<lambda>b. progress_percent ?fl \<lparr>bytesTransferred = b, totalBytes = ?tot\<rparr>) (upload_progress e)
           = map (\<lambda>b. Num (of_int (percent_of ?fl ?tot b))) (upload_progress e)"
    using pos by (simp add: progress_percent_Num)
  have ordered: "sorted (map (percent_of ?fl ?tot) (upload_progress e))"
    using assms(1) pos assms(4) by (rule sorted_map_percent)
  have range: "\<forall>b\<in>set (upload_progress e). 0 \<le> percent_of ?fl ?tot b \<and> percent_of ?fl ?tot b \<le> 100"
    using assms(1) pos assms(5) percent_of_range by blast
  have full: "percent_of ?fl ?tot ?tot = 100"
    using assms(1) pos by (rule percent_of_complete)
  have full_number: "progress_percent ?fl \<lparr>bytesTransferred = ?tot, totalBytes = ?tot\<rparr> = Num 100"
    using pos by (simp add: progress_percent_Num full)
  have full_text: "progressText ?fl \<lparr>bytesTransferred = ?tot, totalBytes = ?tot\<rparr> = ''Uploading... 100%''"
    using progressText_percent [OF assms(1) pos order_refl] by (simp add: full String_of_nat_100)
  from shown numbers ordered range full full_number full_text show ?thesis
    by (intro conjI)
qed

theorem uploadToFirebase_reports_percentages_witness:
  "console (snd (uploadToFirebase (env0\<lparr>upload_progress := [0, 1, 3, 4]\<rparr>) ''/p/p-5.zip'' ''p-5.zip'' user0
       (w0\<lparr>files := [''/p/p-5.zip'' \<mapsto> [80, 75, 5, 6]]\<rparr>)))
     = [[Lit ''Uploading... 0%''], [Lit ''Uploading... 25%''], [Lit ''Uploading... 75%''],
        [Lit ''Uploading... 100%''], [Lit ''Upload completed!'']]
   \<and> sorted (map (percent_of (\<lambda>x. x) 4) [0, 1, 3, 4])
   \<and> percent_of (\<lambda>x. x) 4 4 = 100"
proof -
  let ?e = "env0\<lparr>upload_progress := [0, 1, 3, 4]\<rparr>"
  let ?w = "w0\<lparr>files := [''/p/p-5.zip'' \<mapsto> [80, 75, 5, 6]]\<rparr>"
  have fl: "float_round ?e = (\<lambda>x. x)" and ps: "upload_progress ?e = [0, 1, 3, 4]" and ue: "upload_error ?e = None"
    by (simp_all add: env0_def)
  have r: "rounds_like_ieee (float_round ?e)"
    unfolding fl by (rule exact_rounds_like_ieee)
  have f: "files ?w ''/p/p-5.zip'' = Some [80, 75, 5, 6]"
    by simp
  have n: "[80, 75, 5, 6] \<noteq> ([] :: 8 word list)"
    by simp
  have s: "sorted (upload_progress ?e)"
    unfolding ps by simp
  have b: "\<forall>b\<in>set (upload_progress ?e). b \<le> length ([80, 75, 5, 6] :: 8 word list)"
    unfolding ps by simp
  have c: "console ?w = []"
    by (simp add: w0_def)
  have p: "percent_of (\<lambda>x. x) 4 0 = 0" "percent_of (\<lambda>x. x) 4 1 = 25" "percent_of (\<lambda>x. x) 4 3 = 75"
    "percent_of (\<lambda>x. x) 4 4 = 100"
    by (simp_all add: percent_of_def)
  have d: "String_of_nat 0 = ''0''" "String_of_nat 25 = ''25''" "String_of_nat 75 = ''75''" "String_of_nat 100 = ''100''"
    by (simp_all add: String_of_nat.simps [of 0] String_of_nat.simps [of 25] String_of_nat.simps [of 75]
        String_of_nat.simps [of 100] String_of_nat.simps [of 10] String_of_nat.simps [of "Suc 0"]
        String_of_nat.simps [of 2] String_of_nat.simps [of 7] digit_char_def)
  have len: "length ([80, 75, 5, 6] :: 8 word list) = 4"
    by simp
  note t = uploadToFirebase_reports_percentages [OF r f n s b, of "''p-5.zip''" user0]
  from t [unfolded len fl ps ue c] show ?thesis
    by (simp add: p d del: One_nat_def)
qed

text \<open>
  C8 as stated covers the upload of an empty buffer, whose only
  snapshot, 0 bytes of 0, keeps within the total and reaches it: the percentage is
  \<^verbatim>\<open>NaN\<close>, not 100, and that is what the console shows.
\<close>

theorem uploadToFirebase_empty_archive:
  "console (snd (uploadToFirebase (env0\<lparr>upload_progress := [0]\<rparr>) ''/p/p-5.zip'' ''p-5.zip'' user0
       (w0\<lparr>files := [''/p/p-5.zip'' \<mapsto> []]\<rparr>)))
     = [[Lit ''Uploading... NaN%''], [Lit ''Upload completed!'']]
   \<and> progress_percent (\<lambda>x. x) \<lparr>bytesTransferred = 0, totalBytes = 0\<rparr> = NaN"
  by (simp add: uploadToFirebase_def progressText_def progress_percent_def js_divide_def js_times_def
      Math_round_def show_number_def console_log_def env0_def w0_def Let_def)

subsection \<open>The backend publisher\<close>

lemma fetch_in_time:
  "t < timeout \<Longrightarrow>
   fetch_with_timeout timeout (At t (Responded r)) req w = (Inr r, w\<lparr>http_log := http_log w @ [Request req]\<rparr>)"
  by (simp add: fetch_with_timeout_def Let_def)

lemma missing_id_not_fetch:
  "backend_catch (new_Error ''Deployment service did not return a valid app ID'')
   = new_Error ''Deployment request failed: Deployment service did not return a valid app ID''"
  by (simp add: backend_catch_def new_Error_def is_prefix_def)


text \<open>
  What the \<^verbatim>\<open>try\<close> block makes of a 2xx response that arrived in time, and how the
  \<^verbatim>\<open>catch\<close> block passes it on.
\<close>

lemma backend_try_in_time:
  assumes "getIdToken (user u) = Inr tok" and "backend_reply e = At t (Responded r)" and "t < TIMEOUT_MS"
    and "ok r"
  shows "fst (backend_try e f a u w) =
      (case json_body r of
         Inl err \<Rightarrow> Inl err
       | Inr v \<Rightarrow> (case get_property v ''appId'' of
                     Inl err \<Rightarrow> Inl err
                   | Inr p \<Rightarrow> (case p of None \<Rightarrow> Inl (new_Error ''Deployment service did not return a valid app ID'')
                                | Some x \<Rightarrow> if \<not> truthy (Some x) then Inl (new_Error ''Deployment service did not return a valid app ID'') else Inr x)))"
proof -
  let ?req = "\<lparr>url = BACKEND_ENDPOINT, http_method = ''POST'',
                headers = [(''authorization'', tok), (''Content-Type'', ''application/json'')],
                body = \<lparr>fileName = f, appName = a\<rparr>\<rparr>"
  have fw: "fetch_with_timeout TIMEOUT_MS (backend_reply e) ?req w = (Inr r, w\<lparr>http_log := http_log w @ [Request ?req]\<rparr>)"
    using assms(2,3) by (simp add: fetch_in_time)
  show ?thesis
    unfolding backend_try_def using assms(1,4) fw
    by (simp add: Let_def split: sum.split option.split)
qed

lemma createAppInBackend_result:
  "fst (createAppInBackend e f a u w) =
      (case fst (backend_try e f a u w) of Inl err \<Rightarrow> Inl (backend_catch err) | Inr x \<Rightarrow> Inr x)"
  by (cases "backend_try e f a u w") (simp add: createAppInBackend_def split: sum.splits)

lemma get_property_not_null:
  "v \<noteq> JNull \<Longrightarrow>
   get_property v key = Inr (case v of JObject props \<Rightarrow> map_of props key | _ \<Rightarrow> None)"
  by (cases v) (simp_all add: get_property_def)

lemma null_is_not_fetch:
  "backend_catch (JsError ''TypeError''
       (''Cannot read properties of null (reading '' @ [CHR 0x27] @ ''appId'' @ [CHR 0x27] @ '')'') None)
   = new_Error (''Deployment request failed: Cannot read properties of null (reading ''
        @ [CHR 0x27] @ ''appId'' @ [CHR 0x27] @ '')'')"
  by (simp add: backend_catch_def new_Error_def is_prefix_def)

lemma publish_by_property:
  assumes "getIdToken (user u) = Inr tok" and "backend_reply e = At t (Responded r)" and "t < TIMEOUT_MS"
    and "ok r" and "json_body r = Inr v" and "get_property v ''appId'' = Inr p"
  shows "truthy p \<Longrightarrow> fst (createAppInBackend e f a u w) = Inr (the p)"
    and "\<not> truthy p \<Longrightarrow> fst (createAppInBackend e f a u w)
           = Inl (JsError ''Error'' ''Deployment request failed: Deployment service did not return a valid app ID'' None)"
proof -
  note t = backend_try_in_time [OF assms(1-4), of f a w]
  show "truthy p \<Longrightarrow> fst (createAppInBackend e f a u w) = Inr (the p)"
    by (cases p) (simp_all add: createAppInBackend_result t assms(5,6))
  show "\<not> truthy p \<Longrightarrow> fst (createAppInBackend e f a u w)
           = Inl (JsError ''Error'' ''Deployment request failed: Deployment service did not return a valid app ID'' None)"
    using missing_id_not_fetch
    by (cases p) (simp_all add: createAppInBackend_result t assms(5,6) new_Error_def)
qed

lemma publish_null:
  assumes "getIdToken (user u) = Inr tok" and "backend_reply e = At t (Responded r)" and "t < TIMEOUT_MS"
    and "ok r" and "json_body r = Inr JNull"
  shows "fst (createAppInBackend e f a u w)
           = Inl (JsError ''Error'' (''Deployment request failed: Cannot read properties of null (reading ''
                    @ [CHR 0x27] @ ''appId'' @ [CHR 0x27] @ '')'') None)"
  using null_is_not_fetch
  by (simp add: createAppInBackend_result backend_try_in_time [OF assms(1-4)] assms(5) get_property_def new_Error_def)

lemma publish_unparsed:
  assumes "getIdToken (user u) = Inr tok" and "backend_reply e = At t (Responded r)" and "t < TIMEOUT_MS"
    and "ok r" and "json_body r = Inl err"
  shows "fst (createAppInBackend e f a u w) = Inl (backend_catch err)"
  by (simp add: createAppInBackend_result backend_try_in_time [OF assms(1-4)] assms(5))

text \<open>
  C3, as the code has it. When the user's token is obtained and the backend answers in
  time with a 2xx status, the result of \<open>createAppInBackend\<close> depends on the body. A body that parses
  to a JSON value other than \<^verbatim>\<open>null\<close> has the property \<^verbatim>\<open>appId\<close> of the object,
  or none when the value is not an object: the function returns the property
  when JavaScript counts it as true, in particular every non-empty string (for
  \<^verbatim>\<open>{"appId":"abc123"}\<close> it returns \<^verbatim>\<open>abc123\<close>), and when the property is
  absent, or is the empty string or another false value, it fails, although the
  transport succeeded, with the error "Deployment service did not return a valid app ID",
  which the \<^verbatim>\<open>catch\<close> block rethrows behind the prefix "Deployment request
  failed: ". The body \<^verbatim>\<open>null\<close> fails with the \<^verbatim>\<open>TypeError\<close> of the property
  access instead, and a body that is not JSON with the error of
  \<^verbatim>\<open>response.json()\<close>, both as the \<^verbatim>\<open>catch\<close> block rethrows them.
\<close>

theorem createAppInBackend_appId:
  assumes "getIdToken (user u) = Inr tok" and "backend_reply e = At t (Responded r)" and "t < TIMEOUT_MS"
    and "ok r"
  shows "(\<forall>v. json_body r = Inr v \<and> v \<noteq> JNull \<longrightarrow>
          (\<exists>p. get_property v ''appId'' = Inr p
             \<and> (\<forall>props. v = JObject props \<longrightarrow> p = map_of props ''appId'')
             \<and> ((\<forall>props. v \<noteq> JObject props) \<longrightarrow> p = None)
             \<and> (\<forall>x. p = Some x \<and> truthy (Some x) \<longrightarrow> fst (createAppInBackend e f a u w) = Inr x)
             \<and> (\<forall>s. p = Some (JString s) \<and> s \<noteq> [] \<longrightarrow> fst (createAppInBackend e f a u w) = Inr (JString s))
             \<and> (\<not> truthy p \<longrightarrow> fst (createAppInBackend e f a u w)
                   = Inl (JsError ''Error'' ''Deployment request failed: Deployment service did not return a valid app ID'' None))
             \<and> (p = None \<or> p = Some (JString []) \<longrightarrow> fst (createAppInBackend e f a u w)
                   = Inl (JsError ''Error'' ''Deployment request failed: Deployment service did not return a valid app ID'' None))))
     \<and> (json_body r = Inr JNull \<longrightarrow> fst (createAppInBackend e f a u w)
           = Inl (JsError ''Error'' (''Deployment request failed: Cannot read properties of null (reading ''
                    @ [CHR 0x27] @ ''appId'' @ [CHR 0x27] @ '')'') None))
     \<and> (\<forall>err. json_body r = Inl err \<longrightarrow> fst (createAppInBackend e f a u w) = Inl (backend_catch err))"
proof (intro conjI allI impI)
  fix v
  assume "json_body r = Inr v \<and> v \<noteq> JNull"
  then have body: "json_body r = Inr v" and v: "v \<noteq> JNull"
    by simp_all
  define p where "p = (case v of JObject props \<Rightarrow> map_of props ''appId'' | _ \<Rightarrow> None)"
  have g: "get_property v ''appId'' = Inr p"
    unfolding p_def using v by (rule get_property_not_null)
  note yes = publish_by_property(1) [OF assms body g, of f a w]
  note no = publish_by_property(2) [OF assms body g, of f a w]
  have object: "\<forall>props. v = JObject props \<longrightarrow> p = map_of props ''appId''"
    by (simp add: p_def)
  have other: "(\<forall>props. v \<noteq> JObject props) \<longrightarrow> p = None"
    unfolding p_def by (cases v) simp_all
  have good: "\<forall>x. p = Some x \<and> truthy (Some x) \<longrightarrow> fst (createAppInBackend e f a u w) = Inr x"
    using yes by simp
  have string: "\<forall>s. p = Some (JString s) \<and> s \<noteq> [] \<longrightarrow> fst (createAppInBackend e f a u w) = Inr (JString s)"
    using yes by simp
  have bad: "\<not> truthy p \<longrightarrow> fst (createAppInBackend e f a u w)
      = Inl (JsError ''Error'' ''Deployment request failed: Deployment service did not return a valid app ID'' None)"
    using no by simp
  have empty: "p = None \<or> p = Some (JString []) \<longrightarrow> fst (createAppInBackend e f a u w)
      = Inl (JsError ''Error'' ''Deployment request failed: Deployment service did not return a valid app ID'' None)"
  proof
    assume "p = None \<or> p = Some (JString [])"
    then have "\<not> truthy p" by auto
    with no show "fst (createAppInBackend e f a u w)
      = Inl (JsError ''Error'' ''Deployment request failed: Deployment service did not return a valid app ID'' None)"
      by simp
  qed
  show "\<exists>p. get_property v ''appId'' = Inr p
             \<and> (\<forall>props. v = JObject props \<longrightarrow> p = map_of props ''appId'')
             \<and> ((\<forall>props. v \<noteq> JObject props) \<longrightarrow> p = None)
             \<and> (\<forall>x. p = Some x \<and> truthy (Some x) \<longrightarrow> fst (createAppInBackend e f a u w) = Inr x)
             \<and> (\<forall>s. p = Some (JString s) \<and> s \<noteq> [] \<longrightarrow> fst (createAppInBackend e f a u w) = Inr (JString s))
             \<and> (\<not> truthy p \<longrightarrow> fst (createAppInBackend e f a u w)
                   = Inl (JsError ''Error'' ''Deployment request failed: Deployment service did not return a valid app ID'' None))
             \<and> (p = None \<or> p = Some (JString []) \<longrightarrow> fst (createAppInBackend e f a u w)
                   = Inl (JsError ''Error'' ''Deployment request failed: Deployment service did not return a valid app ID'' None))"
    using g object other good string bad empty by (intro exI [of _ p] conjI)
next
  assume "json_body r = Inr JNull"
  then show "fst (createAppInBackend e f a u w)
           = Inl (JsError ''Error'' (''Deployment request failed: Cannot read properties of null (reading ''
                    @ [CHR 0x27] @ ''appId'' @ [CHR 0x27] @ '')'') None)"
    by (rule publish_null [OF assms])
next
  fix err
  assume "json_body r = Inl err"
  then show "fst (createAppInBackend e f a u w) = Inl (backend_catch err)"
    by (rule publish_unparsed [OF assms])
qed

theorem createAppInBackend_appId_witness:
  "fst (createAppInBackend env0 ''p-5.zip'' ''shop'' user0 w0) = Inr (JString ''abc123'')
   \<and> fst (createAppInBackend (env0\<lparr>backend_reply := At 120 (Responded (response0\<lparr>json_body := Inr (JObject [])\<rparr>))\<rparr>) ''p-5.zip'' ''shop'' user0 w0)
       = Inl (JsError ''Error'' ''Deployment request failed: Deployment service did not return a valid app ID'' None)
   \<and> fst (createAppInBackend (env0\<lparr>backend_reply := At 120 (Responded (response0\<lparr>json_body := Inr (JArray [])\<rparr>))\<rparr>) ''p-5.zip'' ''shop'' user0 w0)
       = Inl (JsError ''Error'' ''Deployment request failed: Deployment service did not return a valid app ID'' None)"
proof -
  let ?e2 = "env0\<lparr>backend_reply := At 120 (Responded (response0\<lparr>json_body := Inr (JObject [])\<rparr>))\<rparr>"
  let ?e3 = "env0\<lparr>backend_reply := At 120 (Responded (response0\<lparr>json_body := Inr (JArray [])\<rparr>))\<rparr>"
  have tok: "getIdToken (user user0) = Inr ''tok''"
    by (simp add: user0_def)
  have t: "(120::nat) < TIMEOUT_MS"
    by (simp add: TIMEOUT_MS_def)
  have r1: "backend_reply env0 = At 120 (Responded response0)" and k1: "ok response0"
    and b1: "json_body response0 = Inr (JObject [(''appId'', JString ''abc123'')])"
    by (simp_all add: env0_def response0_def ok_def)
  have r2: "backend_reply ?e2 = At 120 (Responded (response0\<lparr>json_body := Inr (JObject [])\<rparr>))"
    and k2: "ok (response0\<lparr>json_body := Inr (JObject [])\<rparr>)"
    by (simp_all add: response0_def ok_def)
  have r3: "backend_reply ?e3 = At 120 (Responded (response0\<lparr>json_body := Inr (JArray [])\<rparr>))"
    and k3: "ok (response0\<lparr>json_body := Inr (JArray [])\<rparr>)"
    by (simp_all add: response0_def ok_def)
  from createAppInBackend_appId [OF tok r1 t k1, of "''p-5.zip''" "''shop''" w0] b1
  have one: "fst (createAppInBackend env0 ''p-5.zip'' ''shop'' user0 w0) = Inr (JString ''abc123'')"
    by (simp add: get_property_def)
  from createAppInBackend_appId [OF tok r2 t k2, of "''p-5.zip''" "''shop''" w0]
  have two: "fst (createAppInBackend ?e2 ''p-5.zip'' ''shop'' user0 w0)
       = Inl (JsError ''Error'' ''Deployment request failed: Deployment service did not return a valid app ID'' None)"
    by (simp add: get_property_def)
  from createAppInBackend_appId [OF tok r3 t k3, of "''p-5.zip''" "''shop''" w0]
  have three: "fst (createAppInBackend ?e3 ''p-5.zip'' ''shop'' user0 w0)
       = Inl (JsError ''Error'' ''Deployment request failed: Deployment service did not return a valid app ID'' None)"
    by (simp add: get_property_def)
  from one two three show ?thesis by simp
qed

text \<open>
  C3 as stated promises the missing-app-id error for every
  2xx response without a usable \<^verbatim>\<open>appId\<close>. Two such responses fail with another
  error: the body \<^verbatim>\<open>null\<close>, where reading \<^verbatim>\<open>responseData.appId\<close> throws, and a
  204 response without a body, where \<^verbatim>\<open>response.json()\<close> throws.
\<close>

theorem createAppInBackend_null_body:
  "fst (createAppInBackend (env0\<lparr>backend_reply := At 120 (Responded (response0\<lparr>json_body := Inr JNull\<rparr>))\<rparr>) ''p-5.zip'' ''shop'' user0 w0)
     = Inl (JsError ''Error'' (''Deployment request failed: Cannot read properties of null (reading ''
                    @ [CHR 0x27] @ ''appId'' @ [CHR 0x27] @ '')'') None)
   \<and> fst (createAppInBackend (env0\<lparr>backend_reply := At 120 (Responded (response0\<lparr>status := 204, statusText := ''No Content'',
          json_body := Inl (JsError ''SyntaxError'' ''Unexpected end of JSON input'' None), text_body := Inr []\<rparr>))\<rparr>) ''p-5.zip'' ''shop'' user0 w0)
     = Inl (JsError ''Error'' ''Deployment request failed: Unexpected end of JSON input'' None)"
  by (simp add: createAppInBackend_def backend_try_def fetch_with_timeout_def backend_catch_def
      get_property_def new_Error_def is_prefix_def env0_def user0_def response0_def ok_def
      TIMEOUT_MS_def Let_def)

lemma fetch_too_late:
  "a = Never \<or> (\<exists>t s. a = At t s \<and> timeout \<le> t) \<Longrightarrow>
   fetch_with_timeout timeout a req w = (Inl AbortError, w\<lparr>http_log := http_log w @ [Request req, AbortSignal]\<rparr>)"
  by (auto simp add: fetch_with_timeout_def Let_def)


text \<open>
  C6. The timer of \<open>createAppInBackend\<close> is set to 30000 milliseconds. When the
  backend never answers, or would answer later than 30 seconds after the request was
  sent, the request is sent, then aborted, and the call fails with the error "Request
  timed out after 30 seconds - please check your internet connection", and with no
  other.
\<close>

theorem createAppInBackend_timeout:
  assumes "getIdToken (user u) = Inr tok"
    and "backend_reply e = Never \<or> (\<exists>t s. backend_reply e = At t s \<and> 30000 < t)"
  shows "fst (createAppInBackend e f a u w)
           = Inl (JsError ''Error'' ''Request timed out after 30 seconds - please check your internet connection'' None)
     \<and> http_log (snd (createAppInBackend e f a u w))
           = http_log w @ [Request \<lparr>url = BACKEND_ENDPOINT, http_method = ''POST'',
                              headers = [(''authorization'', tok), (''Content-Type'', ''application/json'')],
                              body = \<lparr>fileName = f, appName = a\<rparr>\<rparr>, AbortSignal]"
proof -
  from assms(2) have late: "backend_reply e = Never \<or> (\<exists>t s. backend_reply e = At t s \<and> TIMEOUT_MS \<le> t)"
    by (auto simp add: TIMEOUT_MS_def)
  have "backend_try e f a u w = (Inl AbortError, w\<lparr>http_log := http_log w @ [Request \<lparr>url = BACKEND_ENDPOINT, http_method = ''POST'',
                              headers = [(''authorization'', tok), (''Content-Type'', ''application/json'')],
                              body = \<lparr>fileName = f, appName = a\<rparr>\<rparr>, AbortSignal]\<rparr>)"
    using assms(1) by (simp add: backend_try_def Let_def fetch_too_late [OF late])
  then show ?thesis
    by (simp add: createAppInBackend_def backend_catch_def AbortError_def new_Error_def)
qed

theorem createAppInBackend_timeout_witness:
  "fst (createAppInBackend (env0\<lparr>backend_reply := At 30001 (Responded response0)\<rparr>) ''p-5.zip'' ''shop'' user0 w0)
           = Inl (JsError ''Error'' ''Request timed out after 30 seconds - please check your internet connection'' None)
   \<and> http_log (snd (createAppInBackend (env0\<lparr>backend_reply := At 30001 (Responded response0)\<rparr>) ''p-5.zip'' ''shop'' user0 w0))
           = [Request \<lparr>url = BACKEND_ENDPOINT, http_method = ''POST'',
                              headers = [(''authorization'', ''tok''), (''Content-Type'', ''application/json'')],
                              body = \<lparr>fileName = ''p-5.zip'', appName = ''shop''\<rparr>\<rparr>, AbortSignal]"
  using createAppInBackend_timeout [of user0 "''tok''" "env0\<lparr>backend_reply := At 30001 (Responded response0)\<rparr>" "''p-5.zip''" "''shop''" w0]
  by (simp add: env0_def user0_def w0_def)

subsection \<open>What each step leaves untouched\<close>

lemma console_log_fields [simp]:
  "files (console_log l w) = files w" "uploads (console_log l w) = uploads w"
  "http_log (console_log l w) = http_log w" "console (console_log l w) = console w @ [[Lit l]]"
  by (simp_all add: console_log_def)

lemma console_log_value_fields [simp]:
  "files (console_log_value l v w) = files w" "uploads (console_log_value l v w) = uploads w"
  "http_log (console_log_value l v w) = http_log w"
  "console (console_log_value l v w) = console w @ [[Lit l, Val v]]"
  by (simp_all add: console_log_value_def)

lemma prompts_text_answer_valid:
  "snd (prompts_text validate_appName ks) = Some a \<Longrightarrow> validate_appName a = Valid"
proof (induction ks)
  case Nil
  then show ?case by simp
next
  case (Cons k ks)
  then show ?case
    by (cases k) (auto split: validation.splits)
qed

lemma valid_not_empty: "validate_appName a = Valid \<Longrightarrow> a \<noteq> []"
  by (auto simp add: validate_appName_def split: if_splits)

lemma createZipFile_ok:
  "archive_error e = None \<Longrightarrow>
   fst (createZipFile e d p w) = Inr ()
   \<and> files (snd (createZipFile e d p w)) = (files w)(p \<mapsto> zip_encode e (createZipFile_entries (name_in_archive e) d p (listing e)))
   \<and> uploads (snd (createZipFile e d p w)) = uploads w
   \<and> http_log (snd (createZipFile e d p w)) = http_log w
   \<and> console (snd (createZipFile e d p w)) = console w @ [[Lit ''Archive size'']]"
  by (simp add: createZipFile_def Let_def)

lemma createZipFile_failed:
  "archive_error e = Some err \<Longrightarrow>
   createZipFile e d p w = (Inl err, w\<lparr>files := (files w)(p \<mapsto> [])\<rparr>)"
  by (simp add: createZipFile_def Let_def)

lemma uploadToFirebase_frame:
  "files (snd (uploadToFirebase e p n u w)) = files w
   \<and> http_log (snd (uploadToFirebase e p n u w)) = http_log w"
  by (simp add: uploadToFirebase_def Let_def split: option.splits)

lemma fetch_with_timeout_frame:
  "files (snd (fetch_with_timeout t a req w)) = files w
   \<and> uploads (snd (fetch_with_timeout t a req w)) = uploads w"
  by (simp add: fetch_with_timeout_def Let_def split: arrival.splits settlement.splits)

lemma backend_try_frame:
  "files (snd (backend_try e f a u w)) = files w \<and> uploads (snd (backend_try e f a u w)) = uploads w"
proof (cases "getIdToken (user u)")
  case (Inl err)
  then show ?thesis by (simp add: backend_try_def)
next
  case (Inr tok)
  let ?req = "\<lparr>url = BACKEND_ENDPOINT, http_method = ''POST'',
                headers = [(''authorization'', tok), (''Content-Type'', ''application/json'')],
                body = \<lparr>fileName = f, appName = a\<rparr>\<rparr>"
  obtain r w1 where fw: "fetch_with_timeout TIMEOUT_MS (backend_reply e) ?req w = (r, w1)"
    by (cases "fetch_with_timeout TIMEOUT_MS (backend_reply e) ?req w")
  from fetch_with_timeout_frame [of TIMEOUT_MS "backend_reply e" ?req w] fw
  have w1: "files w1 = files w" "uploads w1 = uploads w" by simp_all
  have "snd (backend_try e f a u w) = w1"
    using Inr fw by (simp add: backend_try_def Let_def split: sum.splits option.splits)
  with w1 show ?thesis by simp
qed

lemma createAppInBackend_frame:
  "files (snd (createAppInBackend e f a u w)) = files w
   \<and> uploads (snd (createAppInBackend e f a u w)) = uploads w"
  using backend_try_frame [of e f a u w]
  by (cases "backend_try e f a u w") (auto simp add: createAppInBackend_def split: sum.splits)

lemma upload_and_publish_files:
  "files (snd (upload_and_publish e p n a u w)) = files w"
proof (cases "uploadToFirebase e p n u w")
  case (Pair r w1)
  from uploadToFirebase_frame [of e p n u w] Pair have f1: "files w1 = files w" by simp
  show ?thesis
  proof (cases r)
    case (Inl err)
    with Pair f1 show ?thesis by (simp add: upload_and_publish_def)
  next
    case (Inr uploaded)
    let ?w4 = "console_log ''Requesting app deployment from backend service...''
                 (console_log (''Cloud file: '' @ uploaded) (console_log ''Upload completed successfully'' w1))"
    obtain r2 w5 where b: "createAppInBackend e uploaded a u ?w4 = (r2, w5)"
      by (cases "createAppInBackend e uploaded a u ?w4")
    from createAppInBackend_frame [of e uploaded a u ?w4] b f1 have "files w5 = files w" by simp
    with Pair Inr b show ?thesis
      by (simp add: upload_and_publish_def Let_def split: sum.splits)
  qed
qed

lemma cleanup_removes:
  "unlink_error e = None \<Longrightarrow> files (cleanup e p w) p = None"
  by (simp add: cleanup_def unlink_def split: option.splits)

lemma cleanup_refused:
  "unlink_error e = Some err \<Longrightarrow> files w p = Some b \<Longrightarrow>
   files (cleanup e p w) = files w
   \<and> console (cleanup e p w) = console w @ [[Lit ''Warning: Could not remove temporary archive file'']]"
  by (simp add: cleanup_def unlink_def)

lemma cleanup_frame:
  "uploads (cleanup e p w) = uploads w \<and> http_log (cleanup e p w) = http_log w"
  by (simp add: cleanup_def unlink_def split: option.splits)

subsection \<open>The workflow\<close>

text \<open>The result of steps 3 and 4 does not depend on what \<^verbatim>\<open>unlink\<close> will answer.\<close>

lemma uploadToFirebase_any_unlink:
  "uploadToFirebase (e\<lparr>unlink_error := x\<rparr>) p n u w = uploadToFirebase e p n u w"
  by (simp add: uploadToFirebase_def Let_def cong: option.case_cong)

lemma createAppInBackend_any_unlink:
  "createAppInBackend (e\<lparr>unlink_error := x\<rparr>) f a u w = createAppInBackend e f a u w"
  by (simp add: createAppInBackend_def backend_try_def cong: sum.case_cong)

lemma upload_and_publish_any_unlink:
  "upload_and_publish (e\<lparr>unlink_error := x\<rparr>) p n a u w = upload_and_publish e p n a u w"
  by (simp add: upload_and_publish_def uploadToFirebase_any_unlink createAppInBackend_any_unlink
      split: prod.splits sum.splits)

lemma createZipFile_any_unlink:
  "createZipFile (e\<lparr>unlink_error := x\<rparr>) d p w = createZipFile e d p w"
  by (simp add: createZipFile_def Let_def cong: option.case_cong)

lemma names_any_unlink:
  "zipFileName_of (e\<lparr>unlink_error := x\<rparr>) = zipFileName_of e"
  "tempZipPath_of (e\<lparr>unlink_error := x\<rparr>) = tempZipPath_of e"
  by (simp_all add: zipFileName_of_def tempZipPath_of_def)

lemma upload_publish_cleanup_result:
  "fst (upload_publish_cleanup e p n a u w) = fst (upload_and_publish e p n a u w)"
  by (simp add: upload_publish_cleanup_def Let_def)

lemma upload_publish_cleanup_removed:
  "unlink_error e = None \<Longrightarrow> files (snd (upload_publish_cleanup e p n a u w)) p = None"
  by (simp add: upload_publish_cleanup_def Let_def cleanup_removes)

lemma upload_publish_cleanup_refused:
  assumes "unlink_error e = Some err" and "files w p = Some b"
  shows "files (snd (upload_publish_cleanup e p n a u w)) p = Some b
     \<and> [Lit ''Warning: Could not remove temporary archive file'']
          \<in> set (console (snd (upload_publish_cleanup e p n a u w)))"
proof -
  have "files (snd (upload_and_publish e p n a u w)) p = Some b"
    using assms(2) by (simp add: upload_and_publish_files)
  from cleanup_refused [OF assms(1) this] assms(2) show ?thesis
    by (simp add: upload_publish_cleanup_def Let_def upload_and_publish_files)
qed

lemma world_after_prompt_fields [simp]:
  "files (world_after_prompt e u a w) = files w"
  "uploads (world_after_prompt e u a w) = uploads w"
  "http_log (world_after_prompt e u a w) = http_log w"
  by (simp_all add: world_after_prompt_def)

lemma world_before_upload_fields:
  assumes "archive_error e = None"
  shows "files (world_before_upload e w)
           = (files w)(tempZipPath_of e \<mapsto> zip_encode e (createZipFile_entries (name_in_archive e) (cwd e) (tempZipPath_of e) (listing e)))"
    and "uploads (world_before_upload e w) = uploads w"
    and "http_log (world_before_upload e w) = http_log w"
  using createZipFile_ok [OF assms] by (simp_all add: world_before_upload_def)

lemma world_any_unlink:
  "world_before_upload (e\<lparr>unlink_error := x\<rparr>) w = world_before_upload e w"
  "world_after_prompt (e\<lparr>unlink_error := x\<rparr>) u a w = world_after_prompt e u a w"
  by (simp_all add: world_before_upload_def world_after_prompt_def createZipFile_any_unlink names_any_unlink)

lemma createApp_try_answered:
  assumes "snd (prompts_text validate_appName (keys e)) = Some answer"
  shows "createApp_try e u w = archive_and_deploy e u (trim answer) (world_after_prompt e u answer w)"
proof -
  from assms have "answer \<noteq> []"
    using prompts_text_answer_valid valid_not_empty by blast
  with assms show ?thesis
    by (simp add: createApp_try_def Let_def world_after_prompt_def)
qed

lemma createApp_try_unanswered:
  assumes "snd (prompts_text validate_appName (keys e)) = None"
  shows "fst (createApp_try e u w) = Inr ()"
    and "files (snd (createApp_try e u w)) = files w"
    and "uploads (snd (createApp_try e u w)) = uploads w"
    and "http_log (snd (createApp_try e u w)) = http_log w"
    and "last (console (snd (createApp_try e u w))) = [Lit ''App creation cancelled by user'']"
  using assms by (simp_all add: createApp_try_def Let_def)

lemma archive_and_deploy_archived:
  assumes "archive_error e = None"
  shows "archive_and_deploy e u a w =
     (case upload_publish_cleanup e (tempZipPath_of e) (zipFileName_of e) a u (world_before_upload e w) of
        (Inl error, w6) \<Rightarrow> (Inl error, w6)
      | (Inr _, w6) \<Rightarrow> (Inr (), console_log ''App creation completed successfully!'' w6))"
proof -
  let ?w3 = "console_log (''Source: '' @ cwd e) (console_log (''Project: '' @ basename (cwd e))
               (console_log ''Preparing project archive for deployment'' w))"
  let ?z = "createZipFile e (cwd e) (tempZipPath_of e) ?w3"
  from createZipFile_ok [OF assms, of "cwd e" "tempZipPath_of e" ?w3]
  have "fst ?z = Inr ()" by simp
  then show ?thesis
    by (cases ?z) (simp add: archive_and_deploy_def Let_def world_before_upload_def)
qed

lemma archive_and_deploy_failed:
  assumes "archive_error e = Some err"
  shows "fst (archive_and_deploy e u a w) = Inl err"
    and "files (snd (archive_and_deploy e u a w)) (tempZipPath_of e) = Some []"
    and "uploads (snd (archive_and_deploy e u a w)) = uploads w"
    and "http_log (snd (archive_and_deploy e u a w)) = http_log w"
  using assms by (simp_all add: archive_and_deploy_def Let_def createZipFile_failed)

lemma createApp_files: "files (snd (createApp e u w)) = files (snd (createApp_try e u w))"
  by (cases "createApp_try e u w") (simp add: createApp_def split: sum.splits)

lemma createApp_uploads: "uploads (snd (createApp e u w)) = uploads (snd (createApp_try e u w))"
  by (cases "createApp_try e u w") (simp add: createApp_def split: sum.splits)

lemma createApp_http_log: "http_log (snd (createApp e u w)) = http_log (snd (createApp_try e u w))"
  by (cases "createApp_try e u w") (simp add: createApp_def split: sum.splits)

lemma createApp_console:
  "set (console (snd (createApp_try e u w))) \<subseteq> set (console (snd (createApp e u w)))"
  by (cases "createApp_try e u w") (auto simp add: createApp_def split: sum.splits)

lemma createApp_result:
  "fst (createApp e u w) =
     (case fst (createApp_try e u w) of
        Inr _ \<Rightarrow> Inr ()
      | Inl error \<Rightarrow> if error_name error = ''ExitPromptError'' then Inr () else Inl error)"
  by (cases "createApp_try e u w") (simp add: createApp_def split: sum.splits)

text \<open>The run after an answered prompt and a written archive, in one equation per field.\<close>

lemma deployed_files:
  assumes "snd (prompts_text validate_appName (keys e)) = Some answer" and "archive_error e = None"
  shows "files (snd (createApp e u w))
     = files (snd (upload_publish_cleanup e (tempZipPath_of e) (zipFileName_of e) (trim answer) u
                     (world_before_upload e (world_after_prompt e u answer w))))"
  unfolding createApp_files createApp_try_answered [OF assms(1)] archive_and_deploy_archived [OF assms(2)]
  by (simp split: prod.splits sum.splits)

lemma deployed_console:
  assumes "snd (prompts_text validate_appName (keys e)) = Some answer" and "archive_error e = None"
  shows "set (console (snd (upload_publish_cleanup e (tempZipPath_of e) (zipFileName_of e) (trim answer) u
                     (world_before_upload e (world_after_prompt e u answer w)))))
     \<subseteq> set (console (snd (createApp e u w)))"
proof -
  have "set (console (snd (upload_publish_cleanup e (tempZipPath_of e) (zipFileName_of e) (trim answer) u
                     (world_before_upload e (world_after_prompt e u answer w)))))
     \<subseteq> set (console (snd (createApp_try e u w)))"
    unfolding createApp_try_answered [OF assms(1)] archive_and_deploy_archived [OF assms(2)]
    by (auto split: prod.splits sum.splits)
  with createApp_console [of e u w] show ?thesis by blast
qed

lemma deployed_result:
  assumes "snd (prompts_text validate_appName (keys e)) = Some answer" and "archive_error e = None"
  shows "fst (createApp_try e u w)
     = fst (upload_and_publish e (tempZipPath_of e) (zipFileName_of e) (trim answer) u
              (world_before_upload e (world_after_prompt e u answer w)))"
  unfolding createApp_try_answered [OF assms(1)] archive_and_deploy_archived [OF assms(2)]
    upload_publish_cleanup_result [symmetric]
  by (simp split: prod.splits sum.splits)


lemma env0_names:
  "zipFileName_of env0 = ''p-5.zip''" "tempZipPath_of env0 = ''/p/p-5.zip''"
  by (simp_all add: zipFileName_of_def tempZipPath_of_def env0_def basename_def path_join_def
      String_of_nat.simps digit_char_def)


text \<open>
  C1, as the code has it. In every run in which the prompt gave an app name and the
  archive was written, whether the upload and the backend call then succeed or fail: the
  clean-up runs; when \<^verbatim>\<open>unlink\<close> succeeds (or finds no file) the archive file no
  longer exists when the workflow ends; when \<^verbatim>\<open>unlink\<close> fails the file is still
  there and the warning "Could not remove temporary archive file" is on the console; and
  the result of \<open>createApp\<close> (normal return, or the error of the upload or the backend
  call) is the same whatever \<^verbatim>\<open>unlink\<close> answers.
\<close>

theorem createApp_cleanup:
  assumes "snd (prompts_text validate_appName (keys e)) = Some answer" and "archive_error e = None"
  shows "(unlink_error e = None \<longrightarrow> files (snd (createApp e u w)) (tempZipPath_of e) = None)
     \<and> (unlink_error e \<noteq> None \<longrightarrow>
          files (snd (createApp e u w)) (tempZipPath_of e) \<noteq> None
          \<and> [Lit ''Warning: Could not remove temporary archive file''] \<in> set (console (snd (createApp e u w))))
     \<and> fst (createApp (e\<lparr>unlink_error := x\<rparr>) u w) = fst (createApp e u w)"
proof -
  let ?p = "tempZipPath_of e"
  let ?w = "world_before_upload e (world_after_prompt e u answer w)"
  let ?r = "upload_publish_cleanup e ?p (zipFileName_of e) (trim answer) u ?w"
  have there: "files ?w ?p = Some (zip_encode e (createZipFile_entries (name_in_archive e) (cwd e) ?p (listing e)))"
    by (simp add: world_before_upload_fields(1) [OF assms(2)])
  have removed: "unlink_error e = None \<longrightarrow> files (snd (createApp e u w)) ?p = None"
    by (simp add: deployed_files [OF assms] upload_publish_cleanup_removed)
  have refused: "unlink_error e \<noteq> None \<longrightarrow>
          files (snd (createApp e u w)) ?p \<noteq> None
          \<and> [Lit ''Warning: Could not remove temporary archive file''] \<in> set (console (snd (createApp e u w)))"
  proof
    assume "unlink_error e \<noteq> None"
    then obtain err where err: "unlink_error e = Some err" by blast
    from upload_publish_cleanup_refused [OF err there, of "zipFileName_of e" "trim answer" u]
      deployed_files [OF assms, of u w] deployed_console [OF assms, of u w]
    show "files (snd (createApp e u w)) ?p \<noteq> None
          \<and> [Lit ''Warning: Could not remove temporary archive file''] \<in> set (console (snd (createApp e u w)))"
      by auto
  qed
  have a': "snd (prompts_text validate_appName (keys (e\<lparr>unlink_error := x\<rparr>))) = Some answer"
    and b': "archive_error (e\<lparr>unlink_error := x\<rparr>) = None"
    using assms by simp_all
  have "fst (createApp_try (e\<lparr>unlink_error := x\<rparr>) u w) = fst (createApp_try e u w)"
    unfolding deployed_result [OF a' b'] deployed_result [OF assms]
    by (simp add: upload_and_publish_any_unlink names_any_unlink world_any_unlink)
  then have same: "fst (createApp (e\<lparr>unlink_error := x\<rparr>) u w) = fst (createApp e u w)"
    by (simp add: createApp_result)
  from removed refused same show ?thesis by blast
qed

theorem createApp_cleanup_witness:
  "files (snd (createApp env0 user0 w0)) ''/p/p-5.zip'' = None
   \<and> files (snd (createApp (env0\<lparr>upload_error := Some (JsError ''FirebaseError'' ''storage/unauthorized'' None)\<rparr>) user0 w0))
        ''/p/p-5.zip'' = None
   \<and> [Lit ''Warning: Could not remove temporary archive file'']
        \<in> set (console (snd (createApp (env0\<lparr>unlink_error := Some (JsError ''Error'' ''EPERM: operation not permitted'' (Some ''EPERM''))\<rparr>) user0 w0)))
   \<and> fst (createApp (env0\<lparr>unlink_error := Some (JsError ''Error'' ''EPERM: operation not permitted'' (Some ''EPERM''))\<rparr>) user0 w0)
        = fst (createApp env0 user0 w0)"
proof -
  let ?e2 = "env0\<lparr>upload_error := Some (JsError ''FirebaseError'' ''storage/unauthorized'' None)\<rparr>"
  let ?e3 = "env0\<lparr>unlink_error := Some (JsError ''Error'' ''EPERM: operation not permitted'' (Some ''EPERM''))\<rparr>"
  have a: "snd (prompts_text validate_appName (keys env0)) = Some ''shop''"
    by (simp add: env0_def validate_appName_def)
  have b: "archive_error env0 = None" and c: "unlink_error env0 = None"
    by (simp_all add: env0_def)
  have a2: "snd (prompts_text validate_appName (keys ?e2)) = Some ''shop''"
    using a by simp
  have b2: "archive_error ?e2 = None" and c2: "unlink_error ?e2 = None"
    using b c by simp_all
  have n2: "tempZipPath_of ?e2 = ''/p/p-5.zip''"
    using env0_names by (simp add: tempZipPath_of_def zipFileName_of_def)
  have a3: "snd (prompts_text validate_appName (keys ?e3)) = Some ''shop''"
    using a by simp
  have b3: "archive_error ?e3 = None"
    using b by simp
  from createApp_cleanup [OF a b, of user0 w0 "Some (JsError ''Error'' ''EPERM: operation not permitted'' (Some ''EPERM''))"]
    createApp_cleanup [OF a2 b2, of user0 w0 None]
    createApp_cleanup [OF a3 b3, of user0 w0 None]
  show ?thesis
    by (simp add: env0_names n2 c c2)
qed

text \<open>
  C1 as stated fails in two runs of the sample project. When the archiver reports an
  error, \<open>createApp\<close> rethrows it from outside the \<^verbatim>\<open>finally\<close> block, no
  clean-up runs, and the file that \<^verbatim>\<open>createWriteStream\<close> created is still there at
  the end. When every step succeeds but \<^verbatim>\<open>unlink\<close> is refused, the workflow returns
  normally and the archive is still there.
\<close>

theorem createApp_leaves_archive:
  "fst (createApp (env0\<lparr>archive_error := Some (JsError ''Error'' ''EACCES: permission denied'' (Some ''EACCES''))\<rparr>) user0 w0)
     = Inl (JsError ''Error'' ''EACCES: permission denied'' (Some ''EACCES''))
   \<and> files (snd (createApp (env0\<lparr>archive_error := Some (JsError ''Error'' ''EACCES: permission denied'' (Some ''EACCES''))\<rparr>) user0 w0))
        ''/p/p-5.zip'' = Some []
   \<and> fst (createApp (env0\<lparr>unlink_error := Some (JsError ''Error'' ''EPERM: operation not permitted'' (Some ''EPERM''))\<rparr>) user0 w0)
     = Inr ()
   \<and> files (snd (createApp (env0\<lparr>unlink_error := Some (JsError ''Error'' ''EPERM: operation not permitted'' (Some ''EPERM''))\<rparr>) user0 w0))
        ''/p/p-5.zip'' = Some [80, 75, 5, 6]"
  by (simp add: createApp_def createApp_try_def archive_and_deploy_def upload_publish_cleanup_def
      upload_and_publish_def createAppInBackend_def backend_try_def fetch_with_timeout_def
      uploadToFirebase_def createZipFile_def cleanup_def unlink_def validate_appName_def
      env0_def user0_def w0_def response0_def Let_def zipFileName_of_def tempZipPath_of_def
      basename_def path_join_def String_of_nat.simps digit_char_def trim_def is_whitespace_def
      ok_def get_property_def TIMEOUT_MS_def)

lemma init_action_exit:
  "fst (createApp e u w) = Inr () \<Longrightarrow> fst (init_action e u w) = 0 \<and> snd (init_action e u w) = snd (createApp e u w)"
  by (cases "createApp e u w") (simp add: init_action_def)


text \<open>
  C5, as the code has it. An empty line at the app-name prompt does not cancel: it is
  rejected by the validator like every line shorter than 3 characters, and the prompt
  goes on. What cancels is the prompt ending without an answer (the user aborts before
  any line is accepted): then \<open>createApp\<close> returns normally, the process exits with
  status 0, and no file is created, no upload call is made and no request is sent; the
  last console line is "App creation cancelled by user".
\<close>

theorem abort_cancels_createApp:
  "prompts_text validate_appName (Submit [] # rest)
     = (''App name must be at least 3 characters long'' # fst (prompts_text validate_appName rest),
        snd (prompts_text validate_appName rest))
   \<and> (snd (prompts_text validate_appName (keys e)) = None \<longrightarrow>
        fst (createApp e u w) = Inr ()
        \<and> fst (init_action e u w) = 0
        \<and> files (snd (init_action e u w)) = files w
        \<and> uploads (snd (init_action e u w)) = uploads w
        \<and> http_log (snd (init_action e u w)) = http_log w
        \<and> last (console (snd (init_action e u w))) = [Lit ''App creation cancelled by user''])"
proof -
  have rejected: "prompts_text validate_appName (Submit [] # rest)
     = (''App name must be at least 3 characters long'' # fst (prompts_text validate_appName rest),
        snd (prompts_text validate_appName rest))"
    by (simp add: validate_appName_def)
  have cancelled: "fst (createApp e u w) = Inr ()
        \<and> fst (init_action e u w) = 0
        \<and> files (snd (init_action e u w)) = files w
        \<and> uploads (snd (init_action e u w)) = uploads w
        \<and> http_log (snd (init_action e u w)) = http_log w
        \<and> last (console (snd (init_action e u w))) = [Lit ''App creation cancelled by user'']"
    if none: "snd (prompts_text validate_appName (keys e)) = None"
  proof -
    note t = createApp_try_unanswered [OF none, of u w]
    have r: "fst (createApp e u w) = Inr ()"
      using t(1) by (simp add: createApp_result)
    have c: "console (snd (createApp e u w)) = console (snd (createApp_try e u w))"
      using t(1) by (cases "createApp_try e u w") (simp add: createApp_def)
    from init_action_exit [OF r] r t c show ?thesis
      by (simp add: createApp_files createApp_uploads createApp_http_log)
  qed
  from rejected cancelled show ?thesis by blast
qed


theorem abort_cancels_createApp_witness:
  "prompts_text validate_appName [Submit [], Abort] = ([''App name must be at least 3 characters long''], None)
   \<and> fst (createApp (env0\<lparr>keys := [Submit [], Abort]\<rparr>) user0 w0) = Inr ()
   \<and> fst (init_action (env0\<lparr>keys := [Submit [], Abort]\<rparr>) user0 w0) = 0
   \<and> uploads (snd (init_action (env0\<lparr>keys := [Submit [], Abort]\<rparr>) user0 w0)) = []
   \<and> http_log (snd (init_action (env0\<lparr>keys := [Submit [], Abort]\<rparr>) user0 w0)) = []
   \<and> files (snd (init_action (env0\<lparr>keys := [Submit [], Abort]\<rparr>) user0 w0)) ''/p/p-5.zip'' = None"
  using abort_cancels_createApp [of "[Abort]" "env0\<lparr>keys := [Submit [], Abort]\<rparr>" user0 w0]
  by (simp add: w0_def validate_appName_def)


text \<open>
  C5 as stated fails: the user gives an empty line and then the name \<^verbatim>\<open>shop\<close>; the
  workflow does not end at the empty line, and the archive is uploaded and the backend
  is called.
\<close>

theorem empty_input_does_not_cancel:
  "snd (prompts_text validate_appName [Submit [], Submit ''shop'']) = Some ''shop''
   \<and> fst (createApp (env0\<lparr>keys := [Submit [], Submit ''shop'']\<rparr>) user0 w0) = Inr ()
   \<and> uploads (snd (createApp (env0\<lparr>keys := [Submit [], Submit ''shop'']\<rparr>) user0 w0))
       = [\<lparr>storagePath = ''source_files/u1/p-5.zip'', data = [80, 75, 5, 6], contentType = ''application/zip''\<rparr>]
   \<and> http_log (snd (createApp (env0\<lparr>keys := [Submit [], Submit ''shop'']\<rparr>) user0 w0))
       = [Request \<lparr>url = BACKEND_ENDPOINT, http_method = ''POST'',
                headers = [(''authorization'', ''tok''), (''Content-Type'', ''application/json'')],
                body = \<lparr>fileName = ''p-5.zip'', appName = ''shop''\<rparr>\<rparr>]"
  by (simp add: createApp_def createApp_try_def archive_and_deploy_def upload_publish_cleanup_def
      upload_and_publish_def createAppInBackend_def backend_try_def fetch_with_timeout_def
      uploadToFirebase_def createZipFile_def cleanup_def unlink_def validate_appName_def
      env0_def user0_def w0_def response0_def Let_def zipFileName_of_def tempZipPath_of_def
      basename_def path_join_def String_of_nat.simps digit_char_def trim_def is_whitespace_def
      ok_def get_property_def TIMEOUT_MS_def)


lemma fetch_with_timeout_log:
  "http_log (snd (fetch_with_timeout t a req w)) = http_log w @ [Request req]
   \<or> http_log (snd (fetch_with_timeout t a req w)) = http_log w @ [Request req, AbortSignal]"
  by (simp add: fetch_with_timeout_def Let_def split: arrival.splits settlement.splits)

lemma backend_try_log:
  assumes "getIdToken (user u) = Inr tok"
  shows "http_log (snd (backend_try e f a u w))
           = http_log w @ [Request \<lparr>url = BACKEND_ENDPOINT, http_method = ''POST'',
                headers = [(''authorization'', tok), (''Content-Type'', ''application/json'')],
                body = \<lparr>fileName = f, appName = a\<rparr>\<rparr>]
     \<or> http_log (snd (backend_try e f a u w))
           = http_log w @ [Request \<lparr>url = BACKEND_ENDPOINT, http_method = ''POST'',
                headers = [(''authorization'', tok), (''Content-Type'', ''application/json'')],
                body = \<lparr>fileName = f, appName = a\<rparr>\<rparr>, AbortSignal]"
proof -
  let ?req = "\<lparr>url = BACKEND_ENDPOINT, http_method = ''POST'',
                headers = [(''authorization'', tok), (''Content-Type'', ''application/json'')],
                body = \<lparr>fileName = f, appName = a\<rparr>\<rparr>"
  obtain r w1 where fw: "fetch_with_timeout TIMEOUT_MS (backend_reply e) ?req w = (r, w1)"
    by (cases "fetch_with_timeout TIMEOUT_MS (backend_reply e) ?req w")
  have "snd (backend_try e f a u w) = w1"
    using assms fw by (simp add: backend_try_def Let_def split: sum.splits option.splits)
  with fetch_with_timeout_log [of TIMEOUT_MS "backend_reply e" ?req w] fw show ?thesis
    by simp
qed

lemma createAppInBackend_log:
  "http_log (snd (createAppInBackend e f a u w)) = http_log (snd (backend_try e f a u w))"
  by (cases "backend_try e f a u w") (simp add: createAppInBackend_def split: sum.splits)

lemma upload_and_publish_log:
  assumes "files w p = Some b" and "upload_error e = None" and "getIdToken (user u) = Inr tok"
  shows "http_log (snd (upload_and_publish e p n a u w))
           = http_log w @ [Request \<lparr>url = BACKEND_ENDPOINT, http_method = ''POST'',
                headers = [(''authorization'', tok), (''Content-Type'', ''application/json'')],
                body = \<lparr>fileName = n, appName = a\<rparr>\<rparr>]
     \<or> http_log (snd (upload_and_publish e p n a u w))
           = http_log w @ [Request \<lparr>url = BACKEND_ENDPOINT, http_method = ''POST'',
                headers = [(''authorization'', tok), (''Content-Type'', ''application/json'')],
                body = \<lparr>fileName = n, appName = a\<rparr>\<rparr>, AbortSignal]"
proof -
  obtain w1 where up: "uploadToFirebase e p n u w = (Inr n, w1)" and l1: "http_log w1 = http_log w"
    using assms(1,2) by (simp add: uploadToFirebase_def Let_def)
  let ?w4 = "console_log ''Requesting app deployment from backend service...''
               (console_log (''Cloud file: '' @ n) (console_log ''Upload completed successfully'' w1))"
  have "http_log (snd (upload_and_publish e p n a u w)) = http_log (snd (createAppInBackend e n a u ?w4))"
    using up by (cases "createAppInBackend e n a u ?w4") (simp add: upload_and_publish_def Let_def split: sum.splits)
  with backend_try_log [OF assms(3), of e n a ?w4] l1 show ?thesis
    by (simp add: createAppInBackend_log)
qed

lemma deployed_log:
  assumes "snd (prompts_text validate_appName (keys e)) = Some answer" and "archive_error e = None"
  shows "http_log (snd (createApp e u w))
     = http_log (snd (upload_and_publish e (tempZipPath_of e) (zipFileName_of e) (trim answer) u
                     (world_before_upload e (world_after_prompt e u answer w))))"
  unfolding createApp_http_log createApp_try_answered [OF assms(1)] archive_and_deploy_archived [OF assms(2)]
  by (simp add: upload_publish_cleanup_def Let_def cleanup_frame split: prod.splits sum.splits)


text \<open>
  C10. The validator sees the line as typed, and the name that goes on is the trimmed
  line: in every run in which the prompt accepts \<open>answer\<close>, the archive is written, the
  upload completes and a token is issued, the one request sent to the backend (aborted or
  not) carries \<open>trim answer\<close> as its \<^verbatim>\<open>appName\<close>. So there is an accepted
  input whose published name is shorter than 3 characters: \<^verbatim>\<open>a\<close> followed by two
  spaces is accepted, and its name is \<^verbatim>\<open>a\<close>.
\<close>

theorem trimmed_name_is_published:
  assumes "snd (prompts_text validate_appName (keys e)) = Some answer" and "archive_error e = None"
    and "upload_error e = None" and "getIdToken (user u) = Inr tok"
  shows "validate_appName answer = Valid
     \<and> (http_log (snd (createApp e u w))
           = http_log w @ [Request \<lparr>url = BACKEND_ENDPOINT, http_method = ''POST'',
                headers = [(''authorization'', tok), (''Content-Type'', ''application/json'')],
                body = \<lparr>fileName = zipFileName_of e, appName = trim answer\<rparr>\<rparr>]
         \<or> http_log (snd (createApp e u w))
           = http_log w @ [Request \<lparr>url = BACKEND_ENDPOINT, http_method = ''POST'',
                headers = [(''authorization'', tok), (''Content-Type'', ''application/json'')],
                body = \<lparr>fileName = zipFileName_of e, appName = trim answer\<rparr>\<rparr>, AbortSignal])
     \<and> (\<exists>padded. validate_appName padded = Valid \<and> length (trim padded) < 3)"
proof -
  let ?w = "world_before_upload e (world_after_prompt e u answer w)"
  have there: "files ?w (tempZipPath_of e) = Some (zip_encode e (createZipFile_entries (name_in_archive e) (cwd e) (tempZipPath_of e) (listing e)))"
    by (simp add: world_before_upload_fields(1) [OF assms(2)])
  have l: "http_log ?w = http_log w"
    by (simp add: world_before_upload_fields(3) [OF assms(2)])
  have "validate_appName ''a  '' = Valid \<and> length (trim ''a  '') < 3"
    by (simp add: validate_appName_def trim_def is_whitespace_def)
  then have ex: "\<exists>padded. validate_appName padded = Valid \<and> length (trim padded) < 3"
    by blast
  from upload_and_publish_log [OF there assms(3,4), of "zipFileName_of e" "trim answer"] l
    deployed_log [OF assms(1,2), of u w] prompts_text_answer_valid [OF assms(1)] ex
  show ?thesis by simp
qed


theorem trimmed_name_is_published_witness:
  "validate_appName ''a  '' = Valid
   \<and> http_log (snd (createApp (env0\<lparr>keys := [Submit ''a  '']\<rparr>) user0 w0))
       = [Request \<lparr>url = BACKEND_ENDPOINT, http_method = ''POST'',
                headers = [(''authorization'', ''tok''), (''Content-Type'', ''application/json'')],
                body = \<lparr>fileName = ''p-5.zip'', appName = ''a''\<rparr>\<rparr>]"
proof -
  let ?e = "env0\<lparr>keys := [Submit ''a  '']\<rparr>"
  have a: "snd (prompts_text validate_appName (keys ?e)) = Some ''a  ''"
    by (simp add: validate_appName_def)
  have b: "archive_error ?e = None" and c: "upload_error ?e = None"
    by (simp_all add: env0_def)
  have d: "getIdToken (user user0) = Inr ''tok''"
    by (simp add: user0_def)
  have n: "zipFileName_of ?e = ''p-5.zip''"
    using env0_names by (simp add: zipFileName_of_def)
  have t: "trim ''a  '' = ''a''"
    by (simp add: trim_def is_whitespace_def)
  have direct: "AbortSignal \<notin> set (http_log (snd (createApp ?e user0 w0)))"
    by (simp add: createApp_def createApp_try_def archive_and_deploy_def upload_publish_cleanup_def
      upload_and_publish_def createAppInBackend_def backend_try_def fetch_with_timeout_def
      uploadToFirebase_def createZipFile_def cleanup_def unlink_def validate_appName_def
      env0_def user0_def w0_def response0_def Let_def zipFileName_of_def tempZipPath_of_def
      basename_def path_join_def String_of_nat.simps digit_char_def trim_def is_whitespace_def
      ok_def get_property_def TIMEOUT_MS_def)
  from trimmed_name_is_published [OF a b c d, of w0] direct show ?thesis
    by (auto simp add: n t w0_def)
qed

subsection \<open>The archiver\<close>










lemma valid_not_blocked: "valid_name x \<Longrightarrow> \<not> dot_blocked True x"
  by (simp add: valid_name_def dot_blocked_def)



















end
